theory Spec2Isabelle
  imports Complex_Main "HOL-Library.Sublist"
begin

section \<open>JavaScript values, strings and arrays\<close>

text \<open>
  The pipeline of \<^verbatim>\<open>core/main.ts\<close> and the settings of \<^verbatim>\<open>core/config.ts\<close> are embedded
  as HOL functions. TypeScript's types are erased at run time, so every value that comes out
  of \<^verbatim>\<open>JSON.parse\<close> or is passed by a caller is a JavaScript value of any shape.

  A \<^typ>\<open>string\<close> is a list of code units, one \<^typ>\<open>char\<close> per UTF-16 code unit; code units above
  \<open>0xFF\<close> are outside the model. Numbers are the rationals they denote (the infinities that
  an overflowing JSON literal gives are outside the model). An object is the list of its
  pairs; where a key occurs twice, its first pair is the one that counts.
\<close>

datatype jsval =
    JUndefined
  | JNull
  | JBoolean bool
  | JNumber rat
  | JString string
  | JArray "jsval list"
  | JObject "(string \<times> jsval) list"

text \<open>What a \<^verbatim>\<open>throw\<close> carries: \<^verbatim>\<open>new Error(message)\<close>, or one of the run-time's own errors.\<close>

datatype js_error = Error string | TypeError | SyntaxError

text \<open>Truthiness, as \<^verbatim>\<open>if (v)\<close>, \<^verbatim>\<open>!v\<close> and \<^verbatim>\<open>v || w\<close> test it.\<close>

fun truthy :: "jsval \<Rightarrow> bool" where
  "truthy JUndefined = False"
| "truthy JNull = False"
| "truthy (JBoolean b) = b"
| "truthy (JNumber r) = (r \<noteq> 0)"
| "truthy (JString s) = (s \<noteq> [])"
| "truthy (JArray xs) = True"
| "truthy (JObject kvs) = True"

definition js_or :: "jsval \<Rightarrow> jsval \<Rightarrow> jsval" where
  \<comment> \<open>\<^verbatim>\<open>a || b\<close>\<close>
  "js_or a b = (if truthy a then a else b)"

fun nullish :: "jsval \<Rightarrow> bool" where
  "nullish JUndefined = True"
| "nullish JNull = True"
| "nullish v = False"

text \<open>
  \<^verbatim>\<open>v.name\<close> on a value that is neither \<^verbatim>\<open>null\<close> nor \<^verbatim>\<open>undefined\<close> (on those the access
  throws a TypeError, which the callers test with \<^const>\<open>nullish\<close> first). The names the source
  reads are \<^verbatim>\<open>components\<close>, \<^verbatim>\<open>length\<close>, \<^verbatim>\<open>bbox\<close>, \<^verbatim>\<open>box\<close>, \<^verbatim>\<open>x\<close>, \<^verbatim>\<open>y\<close>, \<^verbatim>\<open>width\<close>,
  \<^verbatim>\<open>height\<close>, \<^verbatim>\<open>type\<close>, \<^verbatim>\<open>confidence\<close>, \<^verbatim>\<open>text\<close> and \<^verbatim>\<open>location\<close>: of these only \<^verbatim>\<open>length\<close> is
  a property of strings and arrays, and none is inherited by a parsed object.
\<close>

fun get_prop :: "jsval \<Rightarrow> string \<Rightarrow> jsval" where
  "get_prop (JObject kvs) name = (case map_of kvs name of None \<Rightarrow> JUndefined | Some v \<Rightarrow> v)"
| "get_prop (JArray xs) name = (if name = ''length'' then JNumber (of_nat (length xs)) else JUndefined)"
| "get_prop (JString s) name = (if name = ''length'' then JNumber (of_nat (length s)) else JUndefined)"
| "get_prop v name = JUndefined"

fun isArray :: "jsval \<Rightarrow> bool" where
  "isArray (JArray xs) = True"
| "isArray v = False"

text \<open>
  \<^verbatim>\<open>xs.slice(start, end)\<close> on an array with integer arguments: a negative argument counts
  from the end, and both are clamped to the array.
\<close>

definition js_slice :: "int \<Rightarrow> int \<Rightarrow> 'a list \<Rightarrow> 'a list" where
  "js_slice start end xs =
     (let len = int (length xs);
          k = (if start < 0 then max (len + start) 0 else min start len);
          final = (if end < 0 then max (len + end) 0 else min end len)
      in take (nat (final - k)) (drop (nat k) xs))"

subsection \<open>Strings\<close>

definition newline :: char where
  "newline = CHR ''\<newline>''"

text \<open>
  The code unit U+2022 of the templates' bullet does not fit a \<^typ>\<open>char\<close>. It stands here as
  one code unit that is not white space, which is all the pipeline observes of it.
\<close>

definition bullet :: char where
  "bullet = CHR 0x95"

text \<open>The white space and line terminators that \<^verbatim>\<open>String.prototype.trim\<close> strips, below \<open>0x100\<close>.\<close>

definition is_white :: "char \<Rightarrow> bool" where
  "is_white c = (c \<in> {CHR 0x09, CHR 0x0A, CHR 0x0B, CHR 0x0C, CHR 0x0D, CHR 0x20, CHR 0xA0})"

definition trim :: "string \<Rightarrow> string" where
  "trim s = rev (dropWhile is_white (rev (dropWhile is_white s)))"

text \<open>\<^verbatim>\<open>s.split('\n')\<close>: the pieces between the line feeds; at least one piece.\<close>

fun split_lines :: "string \<Rightarrow> string list" where
  "split_lines [] = [[]]"
| "split_lines (c # cs) =
     (if c = newline then [] # split_lines cs
      else (case split_lines cs of [] \<Rightarrow> [[c]] | l # ls \<Rightarrow> (c # l) # ls))"

text \<open>\<^verbatim>\<open>xs.join(sep)\<close> on an array of strings.\<close>

fun join :: "string \<Rightarrow> string list \<Rightarrow> string" where
  "join sep [] = []"
| "join sep [x] = x"
| "join sep (x # y # ys) = x @ sep @ join sep (y # ys)"

definition substring0 :: "nat \<Rightarrow> string \<Rightarrow> string" where
  \<comment> \<open>\<^verbatim>\<open>s.substring(0, n)\<close>\<close>
  "substring0 n s = take n s"

text \<open>
  \<^verbatim>\<open>s.charAt(0).toUpperCase() + s.slice(1)\<close>. Upper-casing is written out for the letters
  \<open>a\<close> to \<open>z\<close>; the detection term is only ever \<^verbatim>\<open>'component'\<close>.
\<close>

definition toUpperCase :: "char \<Rightarrow> char" where
  "toUpperCase c =
     (case map_of (zip ''abcdefghijklmnopqrstuvwxyz'' ''ABCDEFGHIJKLMNOPQRSTUVWXYZ'') c of
        None \<Rightarrow> c | Some u \<Rightarrow> u)"

fun capitalize :: "string \<Rightarrow> string" where
  "capitalize [] = []"
| "capitalize (c # cs) = toUpperCase c # cs"

subsection \<open>Numbers as text\<close>

fun show_nat :: "nat \<Rightarrow> string" where
  "show_nat n =
     (if n < 10 then [''0123456789'' ! n]
      else show_nat (n div 10) @ [''0123456789'' ! (n mod 10)])"

definition show_int :: "int \<Rightarrow> string" where
  "show_int i = (if i < 0 then ''-'' @ show_nat (nat (- i)) else show_nat (nat i))"

section \<open>The settings: core/config.ts\<close>

text \<open>
  The module's three \<^verbatim>\<open>let\<close> variables, and the calls of the pipeline's stages made so far
  (the stages announce themselves on the console; the text of the log is not modelled).
\<close>

record request =
  systemPrompt :: string
  userPrompt :: string
  temperature :: rat
  jsonResponse :: bool
  model :: string

datatype call =
    GetComponents int
  | AnalyzeMainDesignChoices
  | DescribeActivity
  | AnalyzeDetection nat jsval
  | CallSuperPrompt string "string list" string
  | CallVisionAPI request

record state =
  DETECTION_METHOD :: string
  DETECTION_TERM :: string
  PROMPT_CHOICE :: jsval
  invoked :: "call list"

definition initial :: state where
  "initial = \<lparr>DETECTION_METHOD = ''llm'', DETECTION_TERM = ''component'',
     PROMPT_CHOICE = JString ''concise'', invoked = []\<rparr>"

definition MAX_UI_COMPONENTS :: int where
  "MAX_UI_COMPONENTS = 6"

definition setSplittingMode :: "string \<Rightarrow> state \<Rightarrow> state" where
  "setSplittingMode method st = st\<lparr>DETECTION_METHOD := method, DETECTION_TERM := ''component''\<rparr>"

definition getSplittingMode :: "state \<Rightarrow> string" where
  "getSplittingMode st = DETECTION_METHOD st"

definition getDetectionTerm :: "state \<Rightarrow> string" where
  "getDetectionTerm st = DETECTION_TERM st"

definition invalid_choice :: js_error where
  "invalid_choice =
     Error (''Invalid prompt choice. Must be '' @ [CHR 0x27] @ ''concise'' @ [CHR 0x27]
            @ '' or '' @ [CHR 0x27] @ ''extensive'' @ [CHR 0x27])"

text \<open>
  \<^verbatim>\<open>setPromptChoice(choice)\<close>: the outcome (the error thrown, or a normal return) and the
  settings afterwards. The comparison is \<^verbatim>\<open>!==\<close>, so only the two strings pass.
\<close>

definition setPromptChoice :: "jsval \<Rightarrow> state \<Rightarrow> (js_error + unit) \<times> state" where
  "setPromptChoice choice st =
     (if choice \<noteq> JString ''concise'' \<and> choice \<noteq> JString ''extensive''
      then (Inl invalid_choice, st)
      else (Inr (), st\<lparr>PROMPT_CHOICE := choice\<rparr>))"

definition getPromptChoice :: "state \<Rightarrow> jsval" where
  "getPromptChoice st = PROMPT_CHOICE st"

definition VISION_ANALYSIS_PROMPT :: string where
  \<open>VISION_ANALYSIS_PROMPT =
     join [newline]
      [''You are an expert AI system analyzing UI components for development replication.'',
       '''',
       ''COMPONENT ANALYSIS REQUIREMENTS:'',
       ''{'',
       ''    "type": "Identify component type (button/input/card/etc)",'',
       ''    "visual": {'',
       ''        "colors": ["primary", "secondary", "text"],'',
       ''        "dimensions": "size and spacing",'',
       ''        "typography": "font styles and weights",'',
       ''        "borders": "border styles and radius",'',
       ''        "shadows": "elevation and depth"'',
       ''    },'',
       ''    "content": {'',
       ''        "text": "content and labels",'',
       ''        "icons": "icon types if present",'',
       ''        "images": "image content if present"'',
       ''    },'',
       ''    "interaction": {'',
       ''        "primary": "main interaction type",'',
       ''        "states": ["hover", "active", "disabled"],'',
       ''        "animations": "transitions and effects"'',
       ''    },'',
       ''    "location": {'',
       ''        "position": "relative to parent/siblings",'',
       ''        "alignment": "layout alignment",'',
       ''        "spacing": "margins and padding"'',
       ''    }'',
       ''}'',
       '''',
       ''OUTPUT FORMAT:'',
       ''{'',
       ''    "component": "technical name (<5 words)",'',
       ''    "specs": {'',
       ''        // Fill above structure with detected values'',
       ''    },'',
       ''    "implementation": "key technical considerations (<15 words)"'',
       ''}'']\<close>

definition MAIN_DESIGN_ANALYSIS_PROMPT :: string where
  \<open>MAIN_DESIGN_ANALYSIS_PROMPT =
     join [newline]
      [''You are an expert UI/UX analyst creating structured design specifications.'',
       '''',
       ''ANALYZE AND OUTPUT THE FOLLOWING JSON STRUCTURE:'',
       ''{'',
       ''    "layout": {'',
       ''        "pattern": "primary layout system (grid/flex/etc)",'',
       ''        "structure": {'',
       ''            "sections": ["header", "main", "footer", etc],'',
       ''            "columns": {'',
       ''                "count": "number of columns",'',
       ''                "sizes": "column width distributions"'',
       ''            },'',
       ''            "elements": {'',
       ''                "boxes": "count and arrangement",'',
       ''                "circles": "diameter and placement"'',
       ''            }'',
       ''        },'',
       ''        "spacing": {'',
       ''            "between_sections": "major gaps",'',
       ''            "between_elements": "element spacing"'',
       ''        },'',
       ''        "responsive_hints": "visible breakpoint considerations"'',
       ''    },'',
       ''    "design_system": {'',
       ''        "colors": {'',
       ''            "primary": "main color palette",'',
       ''            "secondary": "supporting colors",'',
       ''            "text": "text hierarchy colors",'',
       ''            "background": "surface colors",'',
       ''            "interactive": "button/link colors"'',
       ''        },'',
       ''        "typography": {'',
       ''            "headings": "heading hierarchy",'',
       ''            "body": "body text styles",'',
       ''            "special": "distinctive text styles"'',
       ''        },'',
       ''        "components": {'',
       ''            "shadows": "elevation levels",'',
       ''            "borders": "border styles",'',
       ''            "radius": "corner rounding"'',
       ''        }'',
       ''    },'',
       ''    "interactions": {'',
       ''        "buttons": {'',
       ''            "types": "button variations",'',
       ''            "states": "visible states (hover/disabled)"'',
       ''        },'',
       ''        "inputs": "form element patterns",'',
       ''        "feedback": "visible status indicators"'',
       ''    },'',
       ''    "content": {'',
       ''        "media": {'',
       ''            "images": "image usage patterns",'',
       ''            "aspect_ratios": "common ratios"'',
       ''        },'',
       ''        "text": {'',
       ''            "lengths": "content constraints",'',
       ''            "density": "text distribution"'',
       ''        }'',
       ''    },'',
       ''    "visual_hierarchy": {'',
       ''        "emphasis": "attention hierarchy",'',
       ''        "flow": "visual reading order",'',
       ''        "density": "content distribution"'',
       ''    },'',
       ''    "implementation_notes": "key technical considerations (<30 words)"'',
       ''}'']\<close>

text \<open>The two templates of \<^verbatim>\<open>buildSuperPrompt\<close>, line by line as the source writes them.\<close>

definition concise_template :: "string \<Rightarrow> string \<Rightarrow> string \<Rightarrow> string \<Rightarrow> string" where
  \<open>concise_template detectionTerm regionSpecs layoutSection activityDescription =
     join [newline]
      [''This study presents a systematic analysis framework for precise UI replication, incorporating component specifications and visual hierarchy assessment. The framework examines:'',
       '''',
       ''    ['' @ capitalize detectionTerm @ '' Analysis]'',
       ''    '' @ regionSpecs,
       '''',
       ''    [Layout Analysis]'',
       ''    '' @ layoutSection,
       '''',
       ''    [Interactive Elements]'',
       ''    '' @ activityDescription,
       '''',
       ''    Technical Specifications for Implementation:'',
       '''',
       ''    1. Layout Architecture'',
       ''    - Container dimensions and responsive breakpoints'',
       ''    - Component positioning matrix including:'',
       ''        '' @ [bullet] @ '' Primary sections (header, content, footer)'',
       ''        '' @ [bullet] @ '' Grid system specifications'',
       ''        '' @ [bullet] @ '' Spatial relationships and padding metrics'',
       '''',
       ''    2. Visual Parameters'',
       ''    - Color schema (primary, secondary, accent)'',
       ''    - Typography specifications'',
       ''    - Elevation system (shadows, borders)'',
       '''',
       ''    3. Component Specifications'',
       ''    - Interactive controls'',
       ''    - Static elements'',
       ''    - State representations'',
       '''',
       ''    4. Content Parameters'',
       ''    - Text constraints and overflow behavior'',
       ''    - Media dimensions and ratios'',
       ''    - Component hierarchy'',
       '''',
       ''    This framework enables precise replication while maintaining structural integrity and interactive functionality across various viewport dimensions.'',
       ''    '']\<close>

definition extensive_template :: "string \<Rightarrow> string \<Rightarrow> string \<Rightarrow> string" where
  \<open>extensive_template regionSpecs layoutSection activityDescription =
     join [newline]
      [''You are an expert UI development agent tasked with providing exact technical specifications for recreating this interface. Analyze all details with high precision:'',
       '''',
       ''    [Components Specifications by Location]'',
       ''    '' @ regionSpecs,
       '''',
       ''    [Layout Structure]'',
       ''    '' @ layoutSection,
       '''',
       ''    [Interaction Patterns]'',
       ''    '' @ activityDescription,
       '''',
       ''    Note: If a component has already been explained in detail above, only its name and location will be listed below to provide geographical context.'',
       '''',
       ''    Provide a complete technical specification for exact replication in text format:'',
       '''',
       ''    1. Layout Structure'',
       ''    - Primary container dimensions'',
       ''    - Component positioning map:'',
       ''        '' @ [bullet] @ '' Header, main content, sidebars, footer'',
       ''        '' @ [bullet] @ '' Layout elements:'',
       ''            - Number and size of columns (e.g., 3 columns at 33% each)'',
       ''            - Number and height of rows'',
       ''            - Grid/box count and arrangement'',
       ''            - Circular elements diameter and placement'',
       ''        '' @ [bullet] @ '' Spacing and gaps:'',
       ''            - Between major sections'',
       ''            - Between grid items'',
       ''            - Inner padding'',
       ''    - Responsive behavior:'',
       ''        '' @ [bullet] @ '' Breakpoint dimensions'',
       ''        '' @ [bullet] @ '' Layout changes at each breakpoint'',
       ''        '' @ [bullet] @ '' Element reflow rules'',
       ''    '',
       ''    2. Visual Style'',
       ''    - Colors:'',
       ''        '' @ [bullet] @ '' Primary, secondary, accent colors'',
       ''        '' @ [bullet] @ '' Background colors'',
       ''        '' @ [bullet] @ '' Text colors'',
       ''        '' @ [bullet] @ '' Border colors'',
       ''    - Typography:'',
       ''        '' @ [bullet] @ '' Font sizes'',
       ''        '' @ [bullet] @ '' Text weights'',
       ''        '' @ [bullet] @ '' Text alignment'',
       ''    - Depth and Emphasis:'',
       ''        '' @ [bullet] @ '' Visible shadows'',
       ''        '' @ [bullet] @ '' Border styles'',
       ''        '' @ [bullet] @ '' Opacity levels'',
       ''    '',
       ''    3. Visible Elements'',
       ''    - Controls:'',
       ''        '' @ [bullet] @ '' Button appearances (if new, otherwise location only)'',
       ''        '' @ [bullet] @ '' Form element styling (if new, otherwise location only)'',
       ''        '' @ [bullet] @ '' Interactive element looks (if new, otherwise location only)'',
       ''    - Static Elements:'',
       ''        '' @ [bullet] @ '' Images and icons (if new, otherwise location only)'',
       ''        '' @ [bullet] @ '' Text content (if new, otherwise location only)'',
       ''        '' @ [bullet] @ '' Decorative elements (if new, otherwise location only)'',
       ''    - Visual States:'',
       ''        '' @ [bullet] @ '' Active/selected states'',
       ''        '' @ [bullet] @ '' Disabled appearances'',
       ''        '' @ [bullet] @ '' Current page indicators'',
       ''    '',
       ''    4. Content Presentation'',
       ''    - Text:'',
       ''        '' @ [bullet] @ '' Visible length limits'',
       ''        '' @ [bullet] @ '' Current overflow handling'',
       ''        '' @ [bullet] @ '' Text wrapping behavior'',
       ''    - Media:'',
       ''        '' @ [bullet] @ '' Image dimensions'',
       ''        '' @ [bullet] @ '' Aspect ratios'',
       ''        '' @ [bullet] @ '' Current placeholder states'',
       ''    '',
       ''    5. Visual Hierarchy'',
       ''    - Element stacking'',
       ''    - Content grouping'',
       ''    - Visual emphasis'',
       ''    - Spatial relationships between previously described components'',
       ''    '']\<close>

text \<open>\<^verbatim>\<open>xs.map((x, i) => f(i, x))\<close> with a callback that cannot throw.\<close>

definition map_index :: "(nat \<Rightarrow> 'a \<Rightarrow> 'b) \<Rightarrow> 'a list \<Rightarrow> 'b list" where
  "map_index f xs = map (\<lambda>(i, x). f i x) (enumerate 0 xs)"

text \<open>
  \<^verbatim>\<open>buildSuperPrompt(mainImageCaption, regionDescriptions, activityDescription, promptSize)\<close>.
  The last parameter has the default \<^verbatim>\<open>'concise'\<close>, which JavaScript takes when the argument
  is left out or \<^verbatim>\<open>undefined\<close>; any value other than \<^verbatim>\<open>'concise'\<close> selects the second template.
\<close>

definition buildSuperPrompt :: "state \<Rightarrow> string \<Rightarrow> string list \<Rightarrow> string \<Rightarrow> jsval \<Rightarrow> string" where
  "buildSuperPrompt st mainImageCaption regionDescriptions activityDescription promptSize_arg =
     (let promptSize = (if promptSize_arg = JUndefined then JString ''concise'' else promptSize_arg);
          detectionTerm = getDetectionTerm st;
          regionSpecs = join [newline]
            (map_index (\<lambda>i desc. capitalize detectionTerm @ '' '' @ show_nat (i + 1) @ '': '' @ desc)
               regionDescriptions);
          layoutSection =
            (if mainImageCaption \<noteq> [] then mainImageCaption else ''No layout analysis available'')
      in if promptSize = JString ''concise''
         then concise_template detectionTerm regionSpecs layoutSection activityDescription
         else extensive_template regionSpecs layoutSection activityDescription)"

section \<open>The pipeline: core/main.ts\<close>

subsection \<open>The host\<close>

text \<open>
  What the pipeline takes from the JavaScript run-time and from the network. The body of
  \<^verbatim>\<open>callVisionAPI\<close> (drawing the image on a canvas, reading the credential from local storage,
  \<^verbatim>\<open>fetch\<close>, decoding the reply) is the host's \<open>gateway\<close>: a call either throws or returns a
  string (\<^verbatim>\<open>data.choices[0].message.content.trim()\<close>). The answer may depend on the image, on
  the request and on everything that was called before. \<open>JSON_parse\<close> is \<^verbatim>\<open>JSON.parse\<close>, with
  \<open>None\<close> for its SyntaxError; \<open>numberToString\<close> is \<^verbatim>\<open>Number.prototype.toString\<close>.
\<close>

record 'img host =
  gateway :: "call list \<Rightarrow> 'img \<Rightarrow> request \<Rightarrow> js_error + string"
  JSON_parse :: "string \<Rightarrow> jsval option"
  numberToString :: "rat \<Rightarrow> string"

text \<open>
  The text of a number. JavaScript prints the shortest digits that read back as the same
  number: for an integer below \<open>2\<^sup>5\<^sup>3\<close> in absolute value, where every integer is a number
  of its own, these are its decimal digits; for every other number (a fraction, or an integer
  from \<open>2\<^sup>5\<^sup>3\<close> on, which is printed rounded, as 1152921504606847000 for \<open>2\<^sup>6\<^sup>0\<close>) the text
  is the host's.
\<close>

definition number_text :: "'img host \<Rightarrow> rat \<Rightarrow> string" where
  "number_text host r =
     (if r = of_int \<lfloor>r\<rfloor> \<and> \<bar>r\<bar> < 2 ^ 53 then show_int \<lfloor>r\<rfloor> else numberToString host r)"

text \<open>
  The conversion of a template literal's \<^verbatim>\<open>${v}\<close>. An array is its elements joined by commas,
  \<^verbatim>\<open>null\<close> and \<^verbatim>\<open>undefined\<close> elements as empty text; a parsed object is \<^verbatim>\<open>[object Object]\<close>,
  unless it has a key \<^verbatim>\<open>toString\<close> of its own, whose value is not callable: then the
  conversion throws a TypeError.
\<close>

fun ToString :: "'img host \<Rightarrow> jsval \<Rightarrow> js_error + string"
  and elements_ToString :: "'img host \<Rightarrow> jsval list \<Rightarrow> js_error + string list" where
  "ToString host JUndefined = Inr ''undefined''"
| "ToString host JNull = Inr ''null''"
| "ToString host (JBoolean b) = Inr (if b then ''true'' else ''false'')"
| "ToString host (JNumber r) = Inr (number_text host r)"
| "ToString host (JString s) = Inr s"
| "ToString host (JArray xs) =
     (case elements_ToString host xs of Inl e \<Rightarrow> Inl e | Inr ss \<Rightarrow> Inr (join '','' ss))"
| "ToString host (JObject kvs) =
     (if map_of kvs ''toString'' \<noteq> None then Inl TypeError else Inr ''[object Object]'')"
| "elements_ToString host [] = Inr []"
| "elements_ToString host (x # xs) =
     (case (if nullish x then Inr [] else ToString host x) of
        Inl e \<Rightarrow> Inl e
      | Inr s \<Rightarrow> (case elements_ToString host xs of Inl e \<Rightarrow> Inl e | Inr ss \<Rightarrow> Inr (s # ss)))"

subsection \<open>Asynchronous functions\<close>

text \<open>
  An \<^verbatim>\<open>async\<close> function, awaited by its caller, is a function from the state to the outcome of
  its promise (\<open>Inl\<close> the rejection) and the state afterwards. \<open>bind\<close> is \<^verbatim>\<open>await\<close> followed
  by the rest of the body: a rejection leaves the body.
\<close>

type_synonym 'a async = "state \<Rightarrow> (js_error + 'a) \<times> state"

definition await :: "'a async \<Rightarrow> ('a \<Rightarrow> 'b async) \<Rightarrow> 'b async" where
  "await m f st = (case m st of (Inl e, st') \<Rightarrow> (Inl e, st') | (Inr x, st') \<Rightarrow> f x st')"

definition resolve :: "'a \<Rightarrow> 'a async" where
  "resolve x st = (Inr x, st)"

definition try_catch :: "'a async \<Rightarrow> (js_error \<Rightarrow> 'a async) \<Rightarrow> 'a async" where
  "try_catch m handler st = (case m st of (Inl e, st') \<Rightarrow> handler e st' | (Inr x, st') \<Rightarrow> (Inr x, st'))"

definition enter :: "call \<Rightarrow> state \<Rightarrow> state" where
  "enter c st = st\<lparr>invoked := invoked st @ [c]\<rparr>"

definition callVisionAPI ::
  "'img host \<Rightarrow> 'img \<Rightarrow> string \<Rightarrow> string \<Rightarrow> rat \<Rightarrow> bool \<Rightarrow> string \<Rightarrow> string async" where
  "callVisionAPI host imageElement sysPrompt usrPrompt temp json mdl st =
     (let req = \<lparr>systemPrompt = sysPrompt, userPrompt = usrPrompt, temperature = temp,
                 jsonResponse = json, model = mdl\<rparr>
      in (gateway host (invoked st) imageElement req, enter (CallVisionAPI req) st))"

subsection \<open>The stages\<close>

text \<open>
  Each stage makes one call of the gateway; the four calls are named, with the arguments the
  source gives them.
\<close>

definition design_call :: "'img host \<Rightarrow> 'img \<Rightarrow> string async" where
  "design_call host imageElement =
     callVisionAPI host imageElement MAIN_DESIGN_ANALYSIS_PROMPT
       ''Analyze the complete design system and structure of this interface.''
       (1 / 10) False ''gpt-4o''"

definition activity_call :: "'img host \<Rightarrow> 'img \<Rightarrow> string async" where
  "activity_call host imageElement =
     callVisionAPI host imageElement ''Describe this webpage activity in a few sentences.''
       ''What activity is shown in this image?'' (1 / 10) False ''gpt-4o''"

definition analysis_prompt :: "string \<Rightarrow> string \<Rightarrow> nat \<Rightarrow> string" where
  "analysis_prompt detectionTerm loc index =
     join [newline]
      [''Analyze this UI '' @ detectionTerm @ '':'',
       ''  - Location: '' @ loc,
       ''  - '' @ capitalize detectionTerm @ '' number: '' @ show_nat index,
       ''  '',
       ''  Provide structured analysis following the JSON schema in system prompt.'',
       ''  Focus on implementation-relevant details.'']"

definition analysis_call :: "'img host \<Rightarrow> 'img \<Rightarrow> string \<Rightarrow> string \<Rightarrow> nat \<Rightarrow> string async" where
  "analysis_call host detectionImage detectionTerm loc index =
     callVisionAPI host detectionImage VISION_ANALYSIS_PROMPT
       (analysis_prompt detectionTerm loc index) (1 / 10) True ''gpt-4o''"

text \<open>
  \<^verbatim>\<open>analyzeMainDesignChoices\<close> is only called with the image, so its \<^verbatim>\<open>temp\<close> is the default
  \<open>0.1\<close>. Its \<^verbatim>\<open>catch\<close> returns the fixed text.
\<close>

definition analyzeMainDesignChoices :: "'img host \<Rightarrow> 'img \<Rightarrow> string async" where
  "analyzeMainDesignChoices host imageElement st =
     try_catch (design_call host imageElement)
       (\<lambda>e. resolve ''Error analyzing main design structure'')
       (enter AnalyzeMainDesignChoices st)"

text \<open>\<^verbatim>\<open>describeActivity\<close> returns the promise of its call as it is: there is no \<^verbatim>\<open>try\<close> in it.\<close>

definition describeActivity :: "'img host \<Rightarrow> 'img \<Rightarrow> string async" where
  "describeActivity host imageElement st =
     activity_call host imageElement (enter DescribeActivity st)"

text \<open>
  \<^verbatim>\<open>analyzeDetection(detectionImage, index, location)\<close>. The location is declared a string,
  and is whatever the detection holds; its conversion to text, first done for the log line,
  can throw.
\<close>

definition analyzeDetection :: "'img host \<Rightarrow> 'img \<Rightarrow> nat \<Rightarrow> jsval \<Rightarrow> string async" where
  "analyzeDetection host detectionImage index location st =
     (let detectionTerm = getDetectionTerm st;
          st1 = enter (AnalyzeDetection index location) st
      in case ToString host location of
           Inl e \<Rightarrow> (Inl e, st1)
         | Inr loc \<Rightarrow>
             await (analysis_call host detectionImage detectionTerm loc index)
               (\<lambda>analysis. resolve (''[Location: '' @ loc @ '']'' @ [newline] @ analysis))
               st1)"

text \<open>
  The cleaning inside \<^verbatim>\<open>callSuperPrompt\<close>: \<^verbatim>\<open>split('\n').slice(1, -1)\<close>, the lines that are
  not blank, \<^verbatim>\<open>join('\n').trim()\<close>.
\<close>

definition cleanedPrompt :: "string \<Rightarrow> string" where
  "cleanedPrompt superPrompt =
     trim (join [newline] (filter (\<lambda>line. trim line \<noteq> []) (js_slice 1 (- 1) (split_lines superPrompt))))"

definition finalPrompt :: "state \<Rightarrow> string \<Rightarrow> string list \<Rightarrow> string \<Rightarrow> string" where
  "finalPrompt st mainImageCaption componentCaptions activityDescription =
     ''Build this app: ''
     @ cleanedPrompt (buildSuperPrompt st mainImageCaption componentCaptions activityDescription JUndefined)"

text \<open>
  \<^verbatim>\<open>callSuperPrompt\<close> resolves, after a timer, to its mock reply; nothing in its body throws
  on strings, so its \<^verbatim>\<open>catch\<close> is never entered.
\<close>

definition callSuperPrompt :: "string \<Rightarrow> string list \<Rightarrow> string \<Rightarrow> string async" where
  "callSuperPrompt mainImageCaption componentCaptions activityDescription st =
     (Inr (''This is a mock super prompt response based on: ''
           @ substring0 50 (finalPrompt st mainImageCaption componentCaptions activityDescription)
           @ ''...''),
      enter (CallSuperPrompt mainImageCaption componentCaptions activityDescription) st)"

subsection \<open>The detector\<close>

record UIDetection =
  type_d :: jsval
  bbox_d :: jsval
  confidence_d :: jsval
  text_d :: jsval

record AnalysisResponse =
  mainDesign :: string
  componentAnalyses :: "string list"
  finalAnalysis :: string

definition detection_prompt :: "'img host \<Rightarrow> int \<Rightarrow> string" where
  \<open>detection_prompt host maxComponents =
     join [newline]
      [''Analyze this UI interface and identify up to '' @ number_text host (of_int maxComponents) @ '' UI components.'',
       ''      For each component, provide the following information:'',
       ''      1. Location description (e.g., "top left", "bottom center of page", etc.)'',
       ''      2. Component type (e.g., button, input field, navigation bar, icon, etc.)'',
       ''      3. Bounding box estimation (relative to entire image, x,y coordinates of top-left corner and width, height in pixels)'',
       ''      4. Component confidence (0.0 to 1.0)'',
       ''      5. Component text content (if visible)'',
       ''      '',
       ''      Return results in JSON format:'',
       ''      {'',
       ''        "components": ['',
       ''          {'',
       ''            "id": numeric ID,'',
       ''            "type": "component type",'',
       ''            "location": "location description",'',
       ''            "bbox": [x, y, width, height],'',
       ''            "confidence": confidence,'',
       ''            "text": "text content"'',
       ''          }'',
       ''        ]'',
       ''      }'']\<close>

text \<open>
  The callback of \<^verbatim>\<open>items.slice(0, maxComponents).map(...)\<close>. Reading a property of a
  \<^verbatim>\<open>null\<close> item throws.
\<close>

definition toUIDetection :: "string \<Rightarrow> nat \<Rightarrow> jsval \<Rightarrow> js_error + UIDetection" where
  "toUIDetection detectionTerm index item =
     (if nullish item then Inl TypeError
      else
        (let bbox =
           (if isArray (get_prop item ''bbox'') then get_prop item ''bbox''
            else if truthy (get_prop item ''box'')
            then JArray [js_or (get_prop (get_prop item ''box'') ''x'') (JNumber 0),
                         js_or (get_prop (get_prop item ''box'') ''y'') (JNumber 0),
                         js_or (get_prop (get_prop item ''box'') ''width'') (JNumber 0),
                         js_or (get_prop (get_prop item ''box'') ''height'') (JNumber 0)]
            else JArray [JNumber 0, JNumber 0, JNumber 0, JNumber 0])
         in Inr \<lparr>type_d = js_or (get_prop item ''type'') (JString ''component''),
                 bbox_d = bbox,
                 confidence_d = js_or (get_prop item ''confidence'') (JNumber 1),
                 text_d = js_or (js_or (get_prop item ''text'') (get_prop item ''location''))
                            (JString (detectionTerm @ '' '' @ show_nat index))\<rparr>))"

text \<open>\<^verbatim>\<open>xs.map(f)\<close> with a callback that can throw: the first throw leaves the map.\<close>

fun map_throwing :: "(nat \<Rightarrow> 'a \<Rightarrow> js_error + 'b) \<Rightarrow> nat \<Rightarrow> 'a list \<Rightarrow> js_error + 'b list" where
  "map_throwing f i [] = Inr []"
| "map_throwing f i (x # xs) =
     (case f i x of
        Inl e \<Rightarrow> Inl e
      | Inr y \<Rightarrow> (case map_throwing f (Suc i) xs of Inl e \<Rightarrow> Inl e | Inr ys \<Rightarrow> Inr (y # ys)))"

text \<open>
  The body of \<^verbatim>\<open>getComponents\<close>'s \<^verbatim>\<open>try\<close> after the reply has come. A reply that is
  \<^verbatim>\<open>null\<close> has no properties to read; \<^verbatim>\<open>slice\<close> and \<^verbatim>\<open>map\<close> are functions on an array only
  (a string can be sliced and not mapped; a parsed object holds no function).
\<close>

definition parseComponents :: "'img host \<Rightarrow> string \<Rightarrow> int \<Rightarrow> string \<Rightarrow> js_error + UIDetection list" where
  "parseComponents host detectionTerm maxComponents response =
     (case JSON_parse host response of
        None \<Rightarrow> Inl SyntaxError
      | Some parsedResponse \<Rightarrow>
          if nullish parsedResponse then Inl TypeError
          else
            (let items = js_or (get_prop parsedResponse ''components'') (JArray [])
             in if \<not> truthy (get_prop items ''length'') then Inr []
                else (case items of
                        JArray xs \<Rightarrow>
                          map_throwing (toUIDetection detectionTerm) 0 (js_slice 0 maxComponents xs)
                      | _ \<Rightarrow> Inl TypeError)))"

text \<open>
  \<^verbatim>\<open>createDetector(method, imageElement, maxComponents).getComponents()\<close>. The \<^verbatim>\<open>catch\<close>
  takes a failed call of the gateway and every throw of the parsing.
\<close>

definition detection_call :: "'img host \<Rightarrow> 'img \<Rightarrow> string \<Rightarrow> int \<Rightarrow> string async" where
  "detection_call host imageElement detectionTerm maxComponents =
     callVisionAPI host imageElement
       (''As a UI analysis expert, identify '' @ detectionTerm @ ''s in the interface.'')
       (detection_prompt host maxComponents) (2 / 10) True ''gpt-4o''"

definition getComponents :: "'img host \<Rightarrow> string \<Rightarrow> 'img \<Rightarrow> int \<Rightarrow> UIDetection list async" where
  "getComponents host method imageElement maxComponents st =
     (let detectionTerm = getDetectionTerm st
      in try_catch
           (await (detection_call host imageElement detectionTerm maxComponents)
              (\<lambda>response st'. (parseComponents host detectionTerm maxComponents response, st')))
           (\<lambda>e. resolve [])
           (enter (GetComponents maxComponents) st))"

subsection \<open>The entry point\<close>

text \<open>The \<^verbatim>\<open>for\<close> loop of \<^verbatim>\<open>processImage\<close>, from index \<open>i\<close> on.\<close>

fun analyzeDetections ::
  "'img host \<Rightarrow> 'img \<Rightarrow> nat \<Rightarrow> UIDetection list \<Rightarrow> string list \<Rightarrow> string list async" where
  "analyzeDetections host img i [] detectionAnalyses st = (Inr detectionAnalyses, st)"
| "analyzeDetections host img i (detection # rest) detectionAnalyses st =
     (case analyzeDetection host img i (text_d detection) st of
        (Inl e, st') \<Rightarrow> (Inl e, st')
      | (Inr analysisResult, st') \<Rightarrow>
          analyzeDetections host img (Suc i) rest (detectionAnalyses @ [analysisResult]) st')"

text \<open>
  The body of \<^verbatim>\<open>processImage\<close>'s \<^verbatim>\<open>try\<close>. \<^verbatim>\<open>maxDetections\<close> is \<open>None\<close> when the caller leaves it
  out; \<^verbatim>\<open>minArea\<close> is never read and is left out here.
\<close>

definition processImage_try :: "'img host \<Rightarrow> 'img \<Rightarrow> int option \<Rightarrow> AnalysisResponse async" where
  "processImage_try host img maxDetections_arg st =
     (let maxDetections = (case maxDetections_arg of None \<Rightarrow> MAX_UI_COMPONENTS | Some n \<Rightarrow> n)
      in await (getComponents host (getSplittingMode st) img maxDetections)
           (\<lambda>detections st1.
              if detections = []
              then (Inr \<lparr>mainDesign = ''No '' @ getDetectionTerm st1 @ ''s detected.'',
                         componentAnalyses = [],
                         finalAnalysis = ''Error during analysis''\<rparr>, st1)
              else
                await (analyzeMainDesignChoices host img) (\<lambda>mainDesignChoices.
                await (describeActivity host img) (\<lambda>activityDescription.
                await (analyzeDetections host img 0 detections []) (\<lambda>detectionAnalyses.
                await (callSuperPrompt mainDesignChoices detectionAnalyses activityDescription)
                  (\<lambda>finalAnalysis.
                     resolve \<lparr>mainDesign = mainDesignChoices,
                              componentAnalyses = detectionAnalyses,
                              finalAnalysis = finalAnalysis\<rparr>)))) st1)
           st)"

definition processImage :: "'img host \<Rightarrow> 'img \<Rightarrow> int option \<Rightarrow> AnalysisResponse async" where
  "processImage host img maxDetections_arg =
     try_catch (processImage_try host img maxDetections_arg)
       (\<lambda>e. resolve \<lparr>mainDesign = ''Error processing image'',
                      componentAnalyses = [],
                      finalAnalysis = ''Error during analysis''\<rparr>)"

subsection \<open>Reading the record of calls\<close>

fun analyzer_calls :: "call list \<Rightarrow> (nat \<times> jsval) list" where
  "analyzer_calls [] = []"
| "analyzer_calls (AnalyzeDetection i location # cs) = (i, location) # analyzer_calls cs"
| "analyzer_calls (c # cs) = analyzer_calls cs"

fun synthesizer_calls :: "call list \<Rightarrow> (string \<times> string list \<times> string) list" where
  "synthesizer_calls [] = []"
| "synthesizer_calls (CallSuperPrompt m cs a # rest) = (m, cs, a) # synthesizer_calls rest"
| "synthesizer_calls (c # rest) = synthesizer_calls rest"

subsection \<open>Example hosts\<close>

text \<open>
  A reply with five components: one with a bounding box and a text, one with a \<^verbatim>\<open>box\<close> object
  and a location, one with a two-element bounding box and nothing else, one with nothing, and
  one with a type, a confidence and an object as its \<^verbatim>\<open>bbox\<close>.
\<close>

definition sample_reply :: string where
  \<open>sample_reply = ''{"components": [{"bbox": [10,10,50,20], "text": "Save"}, {"box": {"x": 100, "y": 50}, "location": "top left"}, {"bbox": [1,2]}, {}, {"type": "button", "confidence": 0.9, "bbox": {"x": 1, "y": 2, "width": 3, "height": 4}}]}''\<close>

definition sample_items :: "jsval list" where
  "sample_items =
     [JObject [(''bbox'', JArray [JNumber 10, JNumber 10, JNumber 50, JNumber 20]),
               (''text'', JString ''Save'')],
      JObject [(''box'', JObject [(''x'', JNumber 100), (''y'', JNumber 50)]),
               (''location'', JString ''top left'')],
      JObject [(''bbox'', JArray [JNumber 1, JNumber 2])],
      JObject [],
      JObject [(''type'', JString ''button''), (''confidence'', JNumber (9 / 10)),
               (''bbox'', JObject [(''x'', JNumber 1), (''y'', JNumber 2),
                                   (''width'', JNumber 3), (''height'', JNumber 4)])]]"

definition sample_detections :: "UIDetection list" where
  "sample_detections =
     [\<lparr>type_d = JString ''component'',
        bbox_d = JArray [JNumber 10, JNumber 10, JNumber 50, JNumber 20],
        confidence_d = JNumber 1, text_d = JString ''Save''\<rparr>,
      \<lparr>type_d = JString ''component'',
        bbox_d = JArray [JNumber 100, JNumber 50, JNumber 0, JNumber 0],
        confidence_d = JNumber 1, text_d = JString ''top left''\<rparr>,
      \<lparr>type_d = JString ''component'',
        bbox_d = JArray [JNumber 1, JNumber 2],
        confidence_d = JNumber 1, text_d = JString ''component 2''\<rparr>,
      \<lparr>type_d = JString ''component'',
        bbox_d = JArray [JNumber 0, JNumber 0, JNumber 0, JNumber 0],
        confidence_d = JNumber 1, text_d = JString ''component 3''\<rparr>,
      \<lparr>type_d = JString ''button'',
        bbox_d = JArray [JNumber 0, JNumber 0, JNumber 0, JNumber 0],
        confidence_d = JNumber (9 / 10), text_d = JString ''component 4''\<rparr>]"

text \<open>A parser that knows three replies, and takes every other text as malformed.\<close>

definition example_parse :: "string \<Rightarrow> jsval option" where
  \<open>example_parse s =
     (if s = ''{}'' then Some (JObject [])
      else if s = ''{"components": []}'' then Some (JObject [(''components'', JArray [])])
      else if s = sample_reply then Some (JObject [(''components'', JArray sample_items)])
      else None)\<close>

definition empty_components :: string where
  \<open>empty_components = ''{"components": []}''\<close>

text \<open>
  A host whose model gives the detector the reply \<open>reply\<close>, and answers every other request:
  the detector's request is the one with temperature \<open>0.2\<close>.
\<close>

definition example_host :: "string \<Rightarrow> unit host" where
  "example_host reply =
     \<lparr>gateway = (\<lambda>tr img req.
        if temperature req = 2 / 10 then Inr reply
        else if jsonResponse req then Inr ''a button''
        else if userPrompt req = ''What activity is shown in this image?'' then Inr ''a login form''
        else Inr ''a centred card''),
      JSON_parse = example_parse,
      numberToString = (\<lambda>r. ''0.5'')\<rparr>"

text \<open>A host without network: every call of the gateway throws.\<close>

definition offline_host :: "unit host" where
  "offline_host =
     \<lparr>gateway = (\<lambda>tr img req. Inl (Error ''Failed to fetch'')),
      JSON_parse = example_parse,
      numberToString = (\<lambda>r. ''0.5'')\<rparr>"

text \<open>
  The two analyses that the example host gives for the first two sample detections, and the
  prompt that \<^verbatim>\<open>callSuperPrompt\<close> builds from them.
\<close>

definition sample_analyses :: "string list" where
  "sample_analyses = [''[Location: Save]\<newline>a button'', ''[Location: top left]\<newline>a button'']"

definition sample_final_prompt :: string where
  \<open>sample_final_prompt =
     join [newline]
      [''Build this app: [Component Analysis]'',
       ''    Component 1: [Location: Save]'',
       ''a button'',
       ''Component 2: [Location: top left]'',
       ''a button'',
       ''    [Layout Analysis]'',
       ''    a centred card'',
       ''    [Interactive Elements]'',
       ''    a login form'',
       ''    Technical Specifications for Implementation:'',
       ''    1. Layout Architecture'',
       ''    - Container dimensions and responsive breakpoints'',
       ''    - Component positioning matrix including:'',
       ''        '' @ [bullet] @ '' Primary sections (header, content, footer)'',
       ''        '' @ [bullet] @ '' Grid system specifications'',
       ''        '' @ [bullet] @ '' Spatial relationships and padding metrics'',
       ''    2. Visual Parameters'',
       ''    - Color schema (primary, secondary, accent)'',
       ''    - Typography specifications'',
       ''    - Elevation system (shadows, borders)'',
       ''    3. Component Specifications'',
       ''    - Interactive controls'',
       ''    - Static elements'',
       ''    - State representations'',
       ''    4. Content Parameters'',
       ''    - Text constraints and overflow behavior'',
       ''    - Media dimensions and ratios'',
       ''    - Component hierarchy'',
       ''    This framework enables precise replication while maintaining structural integrity and interactive functionality across various viewport dimensions.'']\<close>

text \<open>What \<^verbatim>\<open>processImage\<close> returns on the sample when the cap is two.\<close>

definition sample_result :: AnalysisResponse where
  "sample_result =
     \<lparr>mainDesign = ''a centred card'',
      componentAnalyses = sample_analyses,
      finalAnalysis = ''This is a mock super prompt response based on: Build this app: [Component Analysis]\<newline>    Component...''\<rparr>"

text \<open>
  A stage that does not look at the stored verbosity: run from a state with another
  verbosity, it gives the same outcome and the same state, but for the verbosity.
\<close>

definition ignores_prompt_choice :: "'a async \<Rightarrow> bool" where
  "ignores_prompt_choice f =
     (\<forall>st c. f (st\<lparr>PROMPT_CHOICE := c\<rparr>) = (fst (f st), (snd (f st))\<lparr>PROMPT_CHOICE := c\<rparr>))"

section \<open>Properties\<close>

text \<open>
  C8. For every argument other than the two recognised verbosity levels \<^verbatim>\<open>'concise'\<close> and
  \<^verbatim>\<open>'extensive'\<close>, \<^verbatim>\<open>setPromptChoice\<close> fails with the invalid-argument error and leaves the
  whole state, so also the stored verbosity, as it was; for each of the two levels it returns
  normally and the stored verbosity is then the level given.
\<close>

theorem setPromptChoice_validates:
  "(choice \<noteq> JString ''concise'' \<and> choice \<noteq> JString ''extensive'' \<longrightarrow>
      setPromptChoice choice st = (Inl invalid_choice, st))
   \<and> (choice = JString ''concise'' \<or> choice = JString ''extensive'' \<longrightarrow>
      fst (setPromptChoice choice st) = Inr ()
      \<and> getPromptChoice (snd (setPromptChoice choice st)) = choice)"
  by (auto simp: setPromptChoice_def getPromptChoice_def)

theorem setPromptChoice_validates_witness:
  "setPromptChoice (JString ''invalid'') (initial\<lparr>PROMPT_CHOICE := JString ''extensive''\<rparr>)
     = (Inl invalid_choice, initial\<lparr>PROMPT_CHOICE := JString ''extensive''\<rparr>)
   \<and> getPromptChoice (initial\<lparr>PROMPT_CHOICE := JString ''extensive''\<rparr>) = JString ''extensive''
   \<and> fst (setPromptChoice (JString ''extensive'') initial) = Inr ()
   \<and> getPromptChoice (snd (setPromptChoice (JString ''extensive'') initial)) = JString ''extensive''
   \<and> fst (setPromptChoice (JNumber 1) initial) = Inl invalid_choice"
  using setPromptChoice_validates [of "JString ''invalid''" "initial\<lparr>PROMPT_CHOICE := JString ''extensive''\<rparr>"]
    setPromptChoice_validates [of "JString ''extensive''" initial]
    setPromptChoice_validates [of "JNumber 1" initial]
  by (simp add: getPromptChoice_def)


subsection \<open>The detector\<close>

lemma map_throwing_Inr:
  "map_throwing f j xs = Inr ys \<Longrightarrow>
     length ys = length xs \<and> (\<forall>i < length xs. f (j + i) (xs ! i) = Inr (ys ! i))"
proof (induction xs arbitrary: j ys)
  case Nil
  then show ?case by simp
next
  case (Cons x xs)
  from Cons.prems obtain y ys' where y: "f j x = Inr y"
    and rest: "map_throwing f (Suc j) xs = Inr ys'" and ys: "ys = y # ys'"
    by (auto split: sum.splits)
  from Cons.IH [OF rest] have len: "length ys' = length xs"
    and el: "\<forall>i < length xs. f (Suc j + i) (xs ! i) = Inr (ys' ! i)" by auto
  show ?case
  proof (intro conjI allI impI)
    show "length ys = length (x # xs)" using len ys by simp
  next
    fix i assume "i < length (x # xs)"
    then show "f (j + i) ((x # xs) ! i) = Inr (ys ! i)"
      using y el ys by (cases i) auto
  qed
qed

lemma js_slice_0:
  "js_slice 0 n xs =
     take (nat (if n < 0 then max (int (length xs) + n) 0 else min n (int (length xs)))) xs"
  by (simp add: js_slice_def Let_def)

lemma length_js_slice_0: "0 \<le> n \<Longrightarrow> int (length (js_slice 0 n xs)) \<le> n"
  by (simp add: js_slice_0)

lemma parseComponents_length:
  "0 \<le> cap \<Longrightarrow> parseComponents host term cap response = Inr ds \<Longrightarrow> int (length ds) \<le> cap"
  unfolding parseComponents_def Let_def
  by (auto split: option.splits if_splits jsval.splits dest!: map_throwing_Inr
      simp: length_js_slice_0)

lemma getComponents_cases:
  "getComponents host method img cap st =
     (case detection_call host img (getDetectionTerm st) cap (enter (GetComponents cap) st) of
        (Inl e, st1) \<Rightarrow> (Inr [], st1)
      | (Inr response, st1) \<Rightarrow>
          (case parseComponents host (getDetectionTerm st) cap response of
             Inl e \<Rightarrow> (Inr [], st1) | Inr ds \<Rightarrow> (Inr ds, st1)))"
  by (simp add: getComponents_def try_catch_def await_def resolve_def Let_def
      split: prod.splits sum.splits)

lemma detection_call_example:
  "detection_call (example_host reply) img term cap st = (Inr reply, enter (CallVisionAPI
     \<lparr>systemPrompt = ''As a UI analysis expert, identify '' @ term @ ''s in the interface.'',
      userPrompt = detection_prompt (example_host reply) cap, temperature = 2 / 10,
      jsonResponse = True, model = ''gpt-4o''\<rparr>) st)"
  by (simp add: detection_call_def callVisionAPI_def example_host_def)

lemma example_host_parse: "JSON_parse (example_host reply) = example_parse"
  by (simp add: example_host_def)

lemma example_parse_sample:
  "example_parse sample_reply = Some (JObject [(''components'', JArray sample_items)])"
  by (simp add: example_parse_def sample_reply_def)

lemma example_parse_table:
  "example_parse ''not JSON'' = None"
  "example_parse ''{}'' = Some (JObject [])"
  "example_parse empty_components = Some (JObject [(''components'', JArray [])])"
  by (simp_all add: example_parse_def empty_components_def sample_reply_def)

lemma getComponents_sample:
  "fst (getComponents (example_host sample_reply) ''llm'' () 6 initial) = Inr sample_detections"
  by (simp add: getComponents_cases detection_call_example parseComponents_def example_host_parse
      example_parse_sample sample_items_def sample_detections_def js_or_def js_slice_def
      toUIDetection_def getDetectionTerm_def initial_def)

text \<open>The cap at work: of the five components that the model reports, two are returned.\<close>

lemma getComponents_sample_cap_2:
  "fst (getComponents (example_host sample_reply) ''llm'' () 2 initial)
     = Inr (take 2 sample_detections)"
  by (simp add: getComponents_cases detection_call_example parseComponents_def example_host_parse
      example_parse_sample sample_items_def sample_detections_def js_or_def js_slice_def
      toUIDetection_def getDetectionTerm_def initial_def)

text \<open>
  C4. For every detection cap \<open>cap \<ge> 1\<close> and every reply of the model, \<^verbatim>\<open>getComponents\<close>
  resolves, and to a list of at most \<open>cap\<close> detections, however many items the reply holds.
\<close>

theorem getComponents_at_most_cap:
  assumes "1 \<le> cap"
  shows "\<exists>ds. fst (getComponents host method img cap st) = Inr ds \<and> int (length ds) \<le> cap"
proof -
  obtain r st1 where
    call: "detection_call host img (getDetectionTerm st) cap (enter (GetComponents cap) st) = (r, st1)"
    by (cases "detection_call host img (getDetectionTerm st) cap (enter (GetComponents cap) st)")
  show ?thesis
  proof (cases r)
    case (Inl e)
    with call assms show ?thesis by (simp add: getComponents_cases)
  next
    case (Inr response)
    show ?thesis
    proof (cases "parseComponents host (getDetectionTerm st) cap response")
      case (Inl e)
      with call Inr assms show ?thesis by (simp add: getComponents_cases)
    next
      case parsed: (Inr ds)
      from assms have "0 \<le> cap" by simp
      from parseComponents_length [OF this parsed] call Inr parsed
      show ?thesis by (simp add: getComponents_cases)
    qed
  qed
qed

theorem getComponents_at_most_cap_witness:
  "(1::int) \<le> 2
   \<and> (\<exists>ds. fst (getComponents (example_host sample_reply) ''llm'' () 2 initial) = Inr ds
          \<and> int (length ds) \<le> 2)"
  using getComponents_at_most_cap [of 2 "example_host sample_reply" "''llm''" "()" initial]
  by simp

text \<open>
  C5. When the model's reply to the detector does not parse as JSON, or parses to a value
  whose \<^verbatim>\<open>components\<close> property is absent (also on \<^verbatim>\<open>null\<close>, where reading the property
  throws) or falsy, or is the empty array, \<^verbatim>\<open>getComponents\<close> resolves to the empty list:
  nothing is thrown past it.
\<close>

theorem getComponents_empty_on_bad_reply:
  assumes reply:
    "fst (detection_call host img (getDetectionTerm st) cap (enter (GetComponents cap) st))
       = Inr response"
    and bad: "JSON_parse host response = None
              \<or> (\<exists>v. JSON_parse host response = Some v
                      \<and> (\<not> truthy (get_prop v ''components'')
                          \<or> get_prop v ''components'' = JArray []))"
  shows "fst (getComponents host method img cap st) = Inr []"
proof -
  have "parseComponents host (getDetectionTerm st) cap response = Inr []
        \<or> (\<exists>e. parseComponents host (getDetectionTerm st) cap response = Inl e)"
    using bad by (auto simp: parseComponents_def js_or_def)
  with reply show ?thesis
    by (auto simp: getComponents_cases split: prod.splits sum.splits)
qed

theorem getComponents_empty_on_bad_reply_witness:
  "fst (detection_call (example_host ''not JSON'') () (getDetectionTerm initial) 6
          (enter (GetComponents 6) initial)) = Inr ''not JSON''
   \<and> JSON_parse (example_host ''not JSON'') ''not JSON'' = None
   \<and> fst (getComponents (example_host ''not JSON'') ''llm'' () 6 initial) = Inr []
   \<and> JSON_parse (example_host ''{}'') ''{}'' = Some (JObject [])
   \<and> \<not> truthy (get_prop (JObject []) ''components'')
   \<and> fst (getComponents (example_host ''{}'') ''llm'' () 6 initial) = Inr []
   \<and> JSON_parse (example_host empty_components) empty_components
       = Some (JObject [(''components'', JArray [])])
   \<and> get_prop (JObject [(''components'', JArray [])]) ''components'' = JArray []
   \<and> fst (getComponents (example_host empty_components) ''llm'' () 6 initial) = Inr []"
proof -
  have r: "fst (detection_call (example_host reply) () (getDetectionTerm initial) 6
                  (enter (GetComponents 6) initial)) = Inr reply" for reply
    by (simp add: detection_call_example)
  have p1: "JSON_parse (example_host ''not JSON'') ''not JSON'' = None"
    and p2: "JSON_parse (example_host ''{}'') ''{}'' = Some (JObject [])"
    and p3: "JSON_parse (example_host empty_components) empty_components
               = Some (JObject [(''components'', JArray [])])"
    by (simp_all add: example_host_parse example_parse_table)
  have g2: "\<not> truthy (get_prop (JObject []) ''components'')"
    and g3: "get_prop (JObject [(''components'', JArray [])]) ''components'' = JArray []"
    by simp_all
  from getComponents_empty_on_bad_reply [OF r, of "''not JSON''" "''llm''"] p1
  have "fst (getComponents (example_host ''not JSON'') ''llm'' () 6 initial) = Inr []" by simp
  moreover from getComponents_empty_on_bad_reply [OF r, of "''{}''" "''llm''"] p2 g2
  have "fst (getComponents (example_host ''{}'') ''llm'' () 6 initial) = Inr []" by simp
  moreover from getComponents_empty_on_bad_reply [OF r, of empty_components "''llm''"] p3 g3
  have "fst (getComponents (example_host empty_components) ''llm'' () 6 initial) = Inr []"
    by simp
  ultimately show ?thesis using r p1 p2 p3 g2 g3 by simp
qed

lemma parseComponents_converted:
  assumes parse: "JSON_parse host response = Some v"
    and comps: "get_prop v ''components'' = JArray items"
    and result: "parseComponents host term cap response = Inr ds"
    and i: "i < length ds"
  shows "i < length items \<and> toUIDetection term i (items ! i) = Inr (ds ! i)"
proof -
  have not_null: "\<not> nullish v" using comps by (cases v) auto
  have "ds \<noteq> []" using i by auto
  with result parse comps not_null
  have m: "map_throwing (toUIDetection term) 0 (js_slice 0 cap items) = Inr ds"
    by (auto simp: parseComponents_def js_or_def split: if_splits)
  from map_throwing_Inr [OF m]
  have len: "length ds = length (js_slice 0 cap items)"
    and el: "\<forall>i < length (js_slice 0 cap items).
               toUIDetection term (0 + i) (js_slice 0 cap items ! i) = Inr (ds ! i)"
    by auto
  from len i have i': "i < length (js_slice 0 cap items)" by simp
  then have "i < length items" and "js_slice 0 cap items ! i = items ! i"
    by (simp_all add: js_slice_0)
  with el i' show ?thesis by auto
qed

lemma getComponents_result:
  assumes reply:
    "fst (detection_call host img (getDetectionTerm st) cap (enter (GetComponents cap) st))
       = Inr response"
    and result: "fst (getComponents host method img cap st) = Inr ds"
    and "ds \<noteq> []"
  shows "parseComponents host (getDetectionTerm st) cap response = Inr ds"
  using assms by (auto simp: getComponents_cases split: prod.splits sum.splits)

text \<open>
  C6, as the code has it. For the \<open>i\<close>-th detection that \<^verbatim>\<open>getComponents\<close> returns, made from
  the \<open>i\<close>-th item of the reply's \<^verbatim>\<open>components\<close> array: the type is the item's, or
  \<^verbatim>\<open>component\<close> when that is missing or falsy; the confidence is the item's, or \<open>1\<close> when that
  is missing or falsy; the text is the item's text, else its location, else the detection
  term, a space and the index, each passed over when missing or falsy; the bounding box is
  the item's \<^verbatim>\<open>bbox\<close> as it is whenever that is an array, of any length; whenever \<^verbatim>\<open>bbox\<close> is
  anything else (missing, \<^verbatim>\<open>null\<close>, a number, a string, an object), it is the four values
  \<^verbatim>\<open>box.x\<close>, \<^verbatim>\<open>box.y\<close>, \<^verbatim>\<open>box.width\<close>, \<^verbatim>\<open>box.height\<close> of the item's \<^verbatim>\<open>box\<close>, each \<open>0\<close> when missing
  or falsy, if the item has a truthy \<^verbatim>\<open>box\<close>, and \<open>[0, 0, 0, 0]\<close> if it has none.
\<close>

theorem getComponents_item_defaults:
  assumes reply:
    "fst (detection_call host img (getDetectionTerm st) cap (enter (GetComponents cap) st))
       = Inr response"
    and parse: "JSON_parse host response = Some v"
    and comps: "get_prop v ''components'' = JArray items"
    and result: "fst (getComponents host method img cap st) = Inr ds"
    and i: "i < length ds"
  shows "i < length items \<and>
    (let item = items ! i; d = ds ! i in
       type_d d =
         (if truthy (get_prop item ''type'') then get_prop item ''type''
          else JString ''component'')
     \<and> confidence_d d =
         (if truthy (get_prop item ''confidence'') then get_prop item ''confidence''
          else JNumber 1)
     \<and> text_d d =
         (if truthy (get_prop item ''text'') then get_prop item ''text''
          else if truthy (get_prop item ''location'') then get_prop item ''location''
          else JString (getDetectionTerm st @ '' '' @ show_nat i))
     \<and> bbox_d d =
         (if isArray (get_prop item ''bbox'') then get_prop item ''bbox''
          else if truthy (get_prop item ''box'')
          then JArray [js_or (get_prop (get_prop item ''box'') ''x'') (JNumber 0),
                       js_or (get_prop (get_prop item ''box'') ''y'') (JNumber 0),
                       js_or (get_prop (get_prop item ''box'') ''width'') (JNumber 0),
                       js_or (get_prop (get_prop item ''box'') ''height'') (JNumber 0)]
          else JArray [JNumber 0, JNumber 0, JNumber 0, JNumber 0]))"
proof -
  from i have "ds \<noteq> []" by auto
  from getComponents_result [OF reply result this]
  have "parseComponents host (getDetectionTerm st) cap response = Inr ds" .
  from parseComponents_converted [OF parse comps this i]
  have lt: "i < length items"
    and conv: "toUIDetection (getDetectionTerm st) i (items ! i) = Inr (ds ! i)" by auto
  from conv have "\<not> nullish (items ! i)"
    by (auto simp: toUIDetection_def)
  with conv have d: "ds ! i =
    \<lparr>type_d = js_or (get_prop (items ! i) ''type'') (JString ''component''),
     bbox_d = (if isArray (get_prop (items ! i) ''bbox'') then get_prop (items ! i) ''bbox''
            else if truthy (get_prop (items ! i) ''box'')
            then JArray [js_or (get_prop (get_prop (items ! i) ''box'') ''x'') (JNumber 0),
                         js_or (get_prop (get_prop (items ! i) ''box'') ''y'') (JNumber 0),
                         js_or (get_prop (get_prop (items ! i) ''box'') ''width'') (JNumber 0),
                         js_or (get_prop (get_prop (items ! i) ''box'') ''height'') (JNumber 0)]
            else JArray [JNumber 0, JNumber 0, JNumber 0, JNumber 0]),
     confidence_d = js_or (get_prop (items ! i) ''confidence'') (JNumber 1),
     text_d = js_or (js_or (get_prop (items ! i) ''text'') (get_prop (items ! i) ''location''))
                (JString (getDetectionTerm st @ '' '' @ show_nat i))\<rparr>"
    by (simp add: toUIDetection_def Let_def)
  show ?thesis using lt unfolding Let_def d by (simp add: js_or_def)
qed

theorem getComponents_item_defaults_witness:
  "fst (detection_call (example_host sample_reply) () (getDetectionTerm initial) 6
          (enter (GetComponents 6) initial)) = Inr sample_reply
   \<and> JSON_parse (example_host sample_reply) sample_reply
       = Some (JObject [(''components'', JArray sample_items)])
   \<and> get_prop (JObject [(''components'', JArray sample_items)]) ''components'' = JArray sample_items
   \<and> fst (getComponents (example_host sample_reply) ''llm'' () 6 initial) = Inr sample_detections
   \<and> length sample_detections = 5
   \<and> type_d (sample_detections ! 0) = JString ''component''
   \<and> text_d (sample_detections ! 0) = JString ''Save''
   \<and> bbox_d (sample_detections ! 0) = JArray [JNumber 10, JNumber 10, JNumber 50, JNumber 20]
   \<and> confidence_d (sample_detections ! 1) = JNumber 1
   \<and> text_d (sample_detections ! 1) = JString ''top left''
   \<and> bbox_d (sample_detections ! 1) = JArray [JNumber 100, JNumber 50, JNumber 0, JNumber 0]
   \<and> text_d (sample_detections ! 2) = JString ''component 2''
   \<and> bbox_d (sample_detections ! 2) = JArray [JNumber 1, JNumber 2]
   \<and> text_d (sample_detections ! 3) = JString ''component 3''
   \<and> bbox_d (sample_detections ! 3) = JArray [JNumber 0, JNumber 0, JNumber 0, JNumber 0]
   \<and> type_d (sample_detections ! 4) = JString ''button''
   \<and> confidence_d (sample_detections ! 4) = JNumber (9 / 10)
   \<and> bbox_d (sample_detections ! 4) = JArray [JNumber 0, JNumber 0, JNumber 0, JNumber 0]"
proof -
  have h1: "fst (detection_call (example_host sample_reply) () (getDetectionTerm initial) 6
          (enter (GetComponents 6) initial)) = Inr sample_reply"
    by (simp add: detection_call_example)
  have h2: "JSON_parse (example_host sample_reply) sample_reply
       = Some (JObject [(''components'', JArray sample_items)])"
    by (simp add: example_host_parse example_parse_sample)
  have h3: "get_prop (JObject [(''components'', JArray sample_items)]) ''components''
              = JArray sample_items"
    by simp
  note h4 = getComponents_sample
  have len: "length sample_detections = 5" by (simp add: sample_detections_def)
  have i0: "0 < length sample_detections" and i1: "1 < length sample_detections"
    and i2: "2 < length sample_detections" and i3: "3 < length sample_detections"
    and i4: "4 < length sample_detections" using len by simp_all
  have dterm: "getDetectionTerm initial = ''component''"
    by (simp add: getDetectionTerm_def initial_def)
  from getComponents_item_defaults [OF h1 h2 h3 h4 i0]
  have c0: "type_d (sample_detections ! 0) = JString ''component''
     \<and> text_d (sample_detections ! 0) = JString ''Save''
     \<and> bbox_d (sample_detections ! 0) = JArray [JNumber 10, JNumber 10, JNumber 50, JNumber 20]"
    by (simp add: sample_items_def Let_def)
  from getComponents_item_defaults [OF h1 h2 h3 h4 i1]
  have c1: "confidence_d (sample_detections ! 1) = JNumber 1
     \<and> text_d (sample_detections ! 1) = JString ''top left''
     \<and> bbox_d (sample_detections ! 1) = JArray [JNumber 100, JNumber 50, JNumber 0, JNumber 0]"
    by (simp add: sample_items_def js_or_def Let_def)
  from getComponents_item_defaults [OF h1 h2 h3 h4 i2]
  have c2: "text_d (sample_detections ! 2) = JString ''component 2''
     \<and> bbox_d (sample_detections ! 2) = JArray [JNumber 1, JNumber 2]"
    by (simp add: sample_items_def dterm Let_def)
  from getComponents_item_defaults [OF h1 h2 h3 h4 i3]
  have c3: "text_d (sample_detections ! 3) = JString ''component 3''
     \<and> bbox_d (sample_detections ! 3) = JArray [JNumber 0, JNumber 0, JNumber 0, JNumber 0]"
    by (simp add: sample_items_def dterm Let_def)
  from getComponents_item_defaults [OF h1 h2 h3 h4 i4]
  have c4: "type_d (sample_detections ! 4) = JString ''button''
     \<and> confidence_d (sample_detections ! 4) = JNumber (9 / 10)
     \<and> bbox_d (sample_detections ! 4) = JArray [JNumber 0, JNumber 0, JNumber 0, JNumber 0]"
    by (simp add: sample_items_def Let_def)
  from h1 h2 h3 h4 len c0 c1 c2 c3 c4 show ?thesis by simp
qed

text \<open>
  C6 as stated fails twice on the sample reply. Its third item has a two-element \<^verbatim>\<open>bbox\<close>, so
  neither the four-element array nor an object, and the detection's box is that array and
  not \<open>[0, 0, 0, 0]\<close>. Its fifth item has the object \<^verbatim>\<open>{x: 1, y: 2, width: 3, height: 4}\<close> as its
  \<^verbatim>\<open>bbox\<close>, and the detection's box is \<open>[0, 0, 0, 0]\<close> and not \<open>[1, 2, 3, 4]\<close>: the object form is
  read from the key \<^verbatim>\<open>box\<close>.
\<close>

theorem bbox_forms_counterexample:
  "get_prop (sample_items ! 2) ''bbox'' = JArray [JNumber 1, JNumber 2]
   \<and> get_prop (sample_items ! 2) ''box'' = JUndefined
   \<and> map bbox_d (projr (fst (getComponents (example_host sample_reply) ''llm'' () 6 initial))) ! 2
       = JArray [JNumber 1, JNumber 2]
   \<and> map bbox_d (projr (fst (getComponents (example_host sample_reply) ''llm'' () 6 initial))) ! 2
       \<noteq> JArray [JNumber 0, JNumber 0, JNumber 0, JNumber 0]
   \<and> get_prop (sample_items ! 4) ''bbox''
       = JObject [(''x'', JNumber 1), (''y'', JNumber 2), (''width'', JNumber 3), (''height'', JNumber 4)]
   \<and> map bbox_d (projr (fst (getComponents (example_host sample_reply) ''llm'' () 6 initial))) ! 4
       = JArray [JNumber 0, JNumber 0, JNumber 0, JNumber 0]
   \<and> map bbox_d (projr (fst (getComponents (example_host sample_reply) ''llm'' () 6 initial))) ! 4
       \<noteq> JArray [JNumber 1, JNumber 2, JNumber 3, JNumber 4]"
  by (simp add: getComponents_sample sample_items_def sample_detections_def)

subsection \<open>The stages\<close>

lemma analyzeDetection_cases:
  "analyzeDetection host img index location st =
     (case ToString host location of
        Inl e \<Rightarrow> (Inl e, enter (AnalyzeDetection index location) st)
      | Inr loc \<Rightarrow>
          (case analysis_call host img (getDetectionTerm st) loc index
                  (enter (AnalyzeDetection index location) st) of
             (Inl e, st') \<Rightarrow> (Inl e, st')
           | (Inr analysis, st') \<Rightarrow>
               (Inr (''[Location: '' @ loc @ '']'' @ [newline] @ analysis), st')))"
  by (simp add: analyzeDetection_def await_def resolve_def Let_def split: sum.splits prod.splits)

text \<open>
  C9. Whenever \<^verbatim>\<open>analyzeDetection\<close> resolves, its text is the marker line \<^verbatim>\<open>[Location: L]\<close>, with
  \<open>L\<close> the text of the location label it was given (the label itself when that is a string),
  a line feed, and the text that the gateway returned for this call.
\<close>

theorem analyzeDetection_location_marker:
  assumes "fst (analyzeDetection host img index location st) = Inr r"
  shows "\<exists>loc analysis.
           ToString host location = Inr loc
         \<and> fst (analysis_call host img (getDetectionTerm st) loc index
                   (enter (AnalyzeDetection index location) st)) = Inr analysis
         \<and> r = ''[Location: '' @ loc @ '']'' @ [newline] @ analysis"
  using assms by (auto simp: analyzeDetection_cases split: sum.splits prod.splits)

lemma analysis_call_example:
  "analysis_call (example_host reply) img term loc index st = (Inr ''a button'', enter (CallVisionAPI
     \<lparr>systemPrompt = VISION_ANALYSIS_PROMPT, userPrompt = analysis_prompt term loc index,
      temperature = 1 / 10, jsonResponse = True, model = ''gpt-4o''\<rparr>) st)"
  by (simp add: analysis_call_def callVisionAPI_def example_host_def)

theorem analyzeDetection_location_marker_witness:
  "fst (analyzeDetection (example_host sample_reply) () 0 (JString ''Save'') initial)
     = Inr ''[Location: Save]\<newline>a button''
   \<and> (\<exists>loc analysis.
           ToString (example_host sample_reply) (JString ''Save'') = Inr loc
         \<and> fst (analysis_call (example_host sample_reply) () (getDetectionTerm initial) loc 0
                   (enter (AnalyzeDetection 0 (JString ''Save'')) initial)) = Inr analysis
         \<and> ''[Location: Save]\<newline>a button'' = ''[Location: '' @ loc @ '']'' @ [newline] @ analysis)"
proof -
  have h: "fst (analyzeDetection (example_host sample_reply) () 0 (JString ''Save'') initial)
     = Inr ''[Location: Save]\<newline>a button''"
    by (simp add: analyzeDetection_cases analysis_call_example newline_def)
  from analyzeDetection_location_marker [OF h] h show ?thesis by simp
qed


subsection \<open>What the stages add to the record of calls\<close>

lemma analyzer_calls_append:
  "analyzer_calls (xs @ ys) = analyzer_calls xs @ analyzer_calls ys"
  by (induction xs rule: analyzer_calls.induct) simp_all

lemma synthesizer_calls_append:
  "synthesizer_calls (xs @ ys) = synthesizer_calls xs @ synthesizer_calls ys"
  by (induction xs rule: synthesizer_calls.induct) simp_all

lemma callVisionAPI_state:
  "snd (callVisionAPI host img sys usr temp json mdl st) =
     enter (CallVisionAPI \<lparr>systemPrompt = sys, userPrompt = usr, temperature = temp,
                            jsonResponse = json, model = mdl\<rparr>) st"
  by (simp add: callVisionAPI_def Let_def)

lemma getComponents_state:
  "snd (getComponents host method img cap st) =
     snd (detection_call host img (getDetectionTerm st) cap (enter (GetComponents cap) st))"
  by (simp add: getComponents_cases split: prod.splits sum.splits)

lemma getComponents_invoked:
  "invoked (snd (getComponents host method img cap st)) =
     invoked st @ [GetComponents cap, CallVisionAPI
       \<lparr>systemPrompt = ''As a UI analysis expert, identify '' @ getDetectionTerm st
                          @ ''s in the interface.'',
        userPrompt = detection_prompt host cap, temperature = 2 / 10, jsonResponse = True,
        model = ''gpt-4o''\<rparr>]"
  by (simp add: getComponents_state detection_call_def callVisionAPI_state enter_def)

lemma getComponents_settings:
  "getDetectionTerm (snd (getComponents host method img cap st)) = getDetectionTerm st"
  by (simp add: getComponents_state detection_call_def callVisionAPI_state enter_def
      getDetectionTerm_def)

lemma analyzeMainDesignChoices_cases:
  "analyzeMainDesignChoices host img st =
     (case design_call host img (enter AnalyzeMainDesignChoices st) of
        (Inl e, st') \<Rightarrow> (Inr ''Error analyzing main design structure'', st')
      | (Inr s, st') \<Rightarrow> (Inr s, st'))"
  by (simp add: analyzeMainDesignChoices_def try_catch_def resolve_def split: prod.splits sum.splits)

lemma analyzeMainDesignChoices_state:
  "snd (analyzeMainDesignChoices host img st) =
     snd (design_call host img (enter AnalyzeMainDesignChoices st))"
  by (simp add: analyzeMainDesignChoices_cases split: prod.splits sum.splits)

lemma design_invoked:
  "analyzer_calls (invoked (snd (analyzeMainDesignChoices host img st))) = analyzer_calls (invoked st)"
  "synthesizer_calls (invoked (snd (analyzeMainDesignChoices host img st))) = synthesizer_calls (invoked st)"
  "getDetectionTerm (snd (analyzeMainDesignChoices host img st)) = getDetectionTerm st"
  by (simp_all add: analyzeMainDesignChoices_state design_call_def callVisionAPI_state enter_def
      analyzer_calls_append synthesizer_calls_append getDetectionTerm_def)

lemma activity_invoked:
  "analyzer_calls (invoked (snd (describeActivity host img st))) = analyzer_calls (invoked st)"
  "synthesizer_calls (invoked (snd (describeActivity host img st))) = synthesizer_calls (invoked st)"
  "getDetectionTerm (snd (describeActivity host img st)) = getDetectionTerm st"
  by (simp_all add: describeActivity_def activity_call_def callVisionAPI_state enter_def
      analyzer_calls_append synthesizer_calls_append getDetectionTerm_def)

lemma analyzeDetection_invoked:
  "analyzer_calls (invoked (snd (analyzeDetection host img i location st)))
     = analyzer_calls (invoked st) @ [(i, location)]"
  "synthesizer_calls (invoked (snd (analyzeDetection host img i location st)))
     = synthesizer_calls (invoked st)"
  by (auto simp: analyzeDetection_cases analysis_call_def callVisionAPI_def Let_def enter_def
      analyzer_calls_append synthesizer_calls_append split: sum.splits prod.splits)

lemma analyzeDetection_Inr:
  assumes "analyzeDetection host img index location st = (Inr r, st')"
  shows "\<exists>loc analysis. ToString host location = Inr loc
           \<and> r = ''[Location: '' @ loc @ '']'' @ [newline] @ analysis"
  using assms by (auto simp: analyzeDetection_cases split: sum.splits prod.splits)

text \<open>The loop: what it returns and whom it calls when no call fails.\<close>

lemma analyzeDetections_Inr:
  assumes "analyzeDetections host img i ds acc st = (Inr out, st')"
  shows "length out = length acc + length ds
    \<and> take (length acc) out = acc
    \<and> analyzer_calls (invoked st')
        = analyzer_calls (invoked st) @ zip [i ..< i + length ds] (map text_d ds)
    \<and> synthesizer_calls (invoked st') = synthesizer_calls (invoked st)
    \<and> (\<forall>k < length ds. \<exists>loc analysis.
          ToString host (text_d (ds ! k)) = Inr loc
        \<and> out ! (length acc + k) = ''[Location: '' @ loc @ '']'' @ [newline] @ analysis)"
  using assms
proof (induction ds arbitrary: i acc st)
  case Nil
  then show ?case by simp
next
  case (Cons d ds)
  from Cons.prems obtain a st1 where
    one: "analyzeDetection host img i (text_d d) st = (Inr a, st1)"
    and rest: "analyzeDetections host img (Suc i) ds (acc @ [a]) st1 = (Inr out, st')"
    by (auto split: prod.splits sum.splits)
  from analyzeDetection_Inr [OF one]
  obtain loc analysis where loc: "ToString host (text_d d) = Inr loc"
    and a: "a = ''[Location: '' @ loc @ '']'' @ [newline] @ analysis" by blast
  from analyzeDetection_invoked [of host img i "text_d d" st] one
  have tr1: "analyzer_calls (invoked st1) = analyzer_calls (invoked st) @ [(i, text_d d)]"
    and sy1: "synthesizer_calls (invoked st1) = synthesizer_calls (invoked st)" by simp_all
  from Cons.IH [OF rest]
  have len: "length out = length (acc @ [a]) + length ds"
    and pre: "take (length (acc @ [a])) out = acc @ [a]"
    and tr: "analyzer_calls (invoked st')
        = analyzer_calls (invoked st1) @ zip [Suc i ..< Suc i + length ds] (map text_d ds)"
    and sy: "synthesizer_calls (invoked st') = synthesizer_calls (invoked st1)"
    and el: "\<forall>k < length ds. \<exists>loc analysis.
          ToString host (text_d (ds ! k)) = Inr loc
        \<and> out ! (length (acc @ [a]) + k) = ''[Location: '' @ loc @ '']'' @ [newline] @ analysis"
    by auto
  have out_a: "out ! length acc = a"
  proof -
    have "out ! length acc = take (length (acc @ [a])) out ! length acc" by simp
    also have "\<dots> = a" unfolding pre by simp
    finally show ?thesis .
  qed
  have pre': "take (length acc) out = acc"
  proof -
    have "take (length acc) out = take (length acc) (take (length (acc @ [a])) out)"
      by (simp add: min_def)
    also have "\<dots> = acc" unfolding pre by simp
    finally show ?thesis .
  qed
  have upt: "[i ..< i + length (d # ds)] = i # [Suc i ..< Suc i + length ds]"
    by (subst upt_rec) simp
  show ?case
  proof (intro conjI allI impI)
    show "length out = length acc + length (d # ds)" using len by simp
    show "take (length acc) out = acc" by (rule pre')
    show "analyzer_calls (invoked st')
        = analyzer_calls (invoked st) @ zip [i ..< i + length (d # ds)] (map text_d (d # ds))"
      unfolding upt tr tr1 by simp
    show "synthesizer_calls (invoked st') = synthesizer_calls (invoked st)"
      using sy sy1 by simp
  next
    fix k assume k: "k < length (d # ds)"
    show "\<exists>loc analysis. ToString host (text_d ((d # ds) ! k)) = Inr loc
        \<and> out ! (length acc + k) = ''[Location: '' @ loc @ '']'' @ [newline] @ analysis"
    proof (cases k)
      case 0
      with loc a out_a show ?thesis by simp
    next
      case (Suc k')
      with k have "k' < length ds" by simp
      with el obtain loc' analysis' where
        "ToString host (text_d (ds ! k')) = Inr loc'"
        "out ! (length (acc @ [a]) + k') = ''[Location: '' @ loc' @ '']'' @ [newline] @ analysis'"
        by blast
      with Suc show ?thesis by simp
    qed
  qed
qed


subsection \<open>The entry point\<close>

lemma callSuperPrompt_invoked:
  "analyzer_calls (invoked (snd (callSuperPrompt m cs a st))) = analyzer_calls (invoked st)"
  "synthesizer_calls (invoked (snd (callSuperPrompt m cs a st)))
     = synthesizer_calls (invoked st) @ [(m, cs, a)]"
  by (simp_all add: callSuperPrompt_def enter_def analyzer_calls_append synthesizer_calls_append)

lemma processImage_try_cases:
  "processImage_try host img md st =
     (case getComponents host (getSplittingMode st) img
             (case md of None \<Rightarrow> MAX_UI_COMPONENTS | Some n \<Rightarrow> n) st of
        (Inl e, st1) \<Rightarrow> (Inl e, st1)
      | (Inr detections, st1) \<Rightarrow>
          if detections = []
          then (Inr \<lparr>mainDesign = ''No '' @ getDetectionTerm st1 @ ''s detected.'',
                     componentAnalyses = [],
                     finalAnalysis = ''Error during analysis''\<rparr>, st1)
          else
            (case analyzeMainDesignChoices host img st1 of
               (Inl e, st2) \<Rightarrow> (Inl e, st2)
             | (Inr mainDesignChoices, st2) \<Rightarrow>
                 (case describeActivity host img st2 of
                    (Inl e, st3) \<Rightarrow> (Inl e, st3)
                  | (Inr activityDescription, st3) \<Rightarrow>
                      (case analyzeDetections host img 0 detections [] st3 of
                         (Inl e, st4) \<Rightarrow> (Inl e, st4)
                       | (Inr detectionAnalyses, st4) \<Rightarrow>
                           (case callSuperPrompt mainDesignChoices detectionAnalyses
                                   activityDescription st4 of
                              (Inl e, st5) \<Rightarrow> (Inl e, st5)
                            | (Inr final, st5) \<Rightarrow>
                                (Inr \<lparr>mainDesign = mainDesignChoices,
                                       componentAnalyses = detectionAnalyses,
                                       finalAnalysis = final\<rparr>, st5))))))"
  by (simp add: processImage_try_def await_def resolve_def Let_def
      split: prod.splits sum.splits)

lemma processImage_cases:
  "processImage host img md st =
     (case processImage_try host img md st of
        (Inl e, st') \<Rightarrow> (Inr \<lparr>mainDesign = ''Error processing image'',
                               componentAnalyses = [],
                               finalAnalysis = ''Error during analysis''\<rparr>, st')
      | (Inr r, st') \<Rightarrow> (Inr r, st'))"
  by (simp add: processImage_def try_catch_def resolve_def split: prod.splits sum.splits)

text \<open>
  C1, as the code has it. When the detector returns no detection, \<^verbatim>\<open>processImage\<close> resolves to
  the result whose \<^verbatim>\<open>mainDesign\<close> is \<^verbatim>\<open>No <term>s detected.\<close>, whose \<^verbatim>\<open>componentAnalyses\<close> is the
  empty list and whose \<^verbatim>\<open>finalAnalysis\<close> is \<^verbatim>\<open>Error during analysis\<close>; it stops where the
  detector stopped, so neither \<^verbatim>\<open>analyzeDetection\<close> nor \<^verbatim>\<open>callSuperPrompt\<close> is called.
\<close>

theorem processImage_no_detections:
  assumes "fst (getComponents host (getSplittingMode st) img
                  (case md of None \<Rightarrow> MAX_UI_COMPONENTS | Some n \<Rightarrow> n) st) = Inr []"
  shows "fst (processImage host img md st) =
           Inr \<lparr>mainDesign = ''No '' @ getDetectionTerm st @ ''s detected.'',
                componentAnalyses = [],
                finalAnalysis = ''Error during analysis''\<rparr>
       \<and> snd (processImage host img md st) =
           snd (getComponents host (getSplittingMode st) img
                  (case md of None \<Rightarrow> MAX_UI_COMPONENTS | Some n \<Rightarrow> n) st)
       \<and> analyzer_calls (invoked (snd (processImage host img md st))) = analyzer_calls (invoked st)
       \<and> synthesizer_calls (invoked (snd (processImage host img md st)))
           = synthesizer_calls (invoked st)"
proof -
  let ?cap = "case md of None \<Rightarrow> MAX_UI_COMPONENTS | Some n \<Rightarrow> n"
  let ?g = "getComponents host (getSplittingMode st) img ?cap st"
  from assms have g: "?g = (Inr [], snd ?g)" by (cases ?g) simp
  have dterm: "getDetectionTerm (snd ?g) = getDetectionTerm st"
    by (rule getComponents_settings)
  have body: "processImage_try host img md st =
      (Inr \<lparr>mainDesign = ''No '' @ getDetectionTerm st @ ''s detected.'',
             componentAnalyses = [], finalAnalysis = ''Error during analysis''\<rparr>, snd ?g)"
    by (subst processImage_try_cases, subst g) (simp add: dterm)
  have calls: "analyzer_calls (invoked (snd ?g)) = analyzer_calls (invoked st)"
    "synthesizer_calls (invoked (snd ?g)) = synthesizer_calls (invoked st)"
    by (simp_all add: getComponents_invoked analyzer_calls_append synthesizer_calls_append)
  show ?thesis by (simp add: processImage_cases body calls)
qed

text \<open>
  C7. When the detector returns \<open>n > 0\<close> detections and the body of \<^verbatim>\<open>processImage\<close> runs to
  its end without a throw, the result is the body's; its \<^verbatim>\<open>componentAnalyses\<close> has length \<open>n\<close>;
  the calls of \<^verbatim>\<open>analyzeDetection\<close> made by the run are, in this order, one per detection with
  the indices \<open>0\<close> to \<open>n - 1\<close> and the detection's text as location; and the \<open>i\<close>-th analysis
  is the one of the \<open>i\<close>-th detection, marked with its location.
\<close>

theorem processImage_analyzes_each_detection:
  assumes dets: "fst (getComponents host (getSplittingMode st) img
                        (case md of None \<Rightarrow> MAX_UI_COMPONENTS | Some n \<Rightarrow> n) st) = Inr detections"
    and ne: "detections \<noteq> []"
    and ok: "fst (processImage_try host img md st) = Inr r"
  shows "fst (processImage host img md st) = Inr r
       \<and> length (componentAnalyses r) = length detections
       \<and> analyzer_calls (invoked (snd (processImage host img md st)))
           = analyzer_calls (invoked st) @ zip [0 ..< length detections] (map text_d detections)
       \<and> (\<forall>i < length detections. \<exists>loc analysis.
             ToString host (text_d (detections ! i)) = Inr loc
           \<and> componentAnalyses r ! i = ''[Location: '' @ loc @ '']'' @ [newline] @ analysis)"
proof -
  let ?cap = "case md of None \<Rightarrow> MAX_UI_COMPONENTS | Some n \<Rightarrow> n"
  let ?g = "getComponents host (getSplittingMode st) img ?cap st"
  define st1 where "st1 = snd ?g"
  from dets have g: "?g = (Inr detections, st1)" by (cases ?g) (simp add: st1_def)
  obtain r2 st2 where d: "analyzeMainDesignChoices host img st1 = (r2, st2)"
    by (cases "analyzeMainDesignChoices host img st1")
  obtain r3 st3 where a: "describeActivity host img st2 = (r3, st3)"
    by (cases "describeActivity host img st2")
  obtain r4 st4 where l: "analyzeDetections host img 0 detections [] st3 = (r4, st4)"
    by (cases "analyzeDetections host img 0 detections [] st3")
  from ok ne obtain m act out where r2: "r2 = Inr m" and r3: "r3 = Inr act" and r4: "r4 = Inr out"
    and r: "r = \<lparr>mainDesign = m, componentAnalyses = out,
                 finalAnalysis = projr (fst (callSuperPrompt m out act st4))\<rparr>"
    and final: "processImage_try host img md st = (Inr r, snd (callSuperPrompt m out act st4))"
    by (subst (asm) processImage_try_cases, subst (asm) g)
       (auto simp: d a l callSuperPrompt_def processImage_try_cases g split: sum.splits)
  from l r4 have loop: "analyzeDetections host img 0 detections [] st3 = (Inr out, st4)" by simp
  from analyzeDetections_Inr [OF loop]
  have len: "length out = length detections"
    and tr: "analyzer_calls (invoked st4)
        = analyzer_calls (invoked st3) @ zip [0 ..< length detections] (map text_d detections)"
    and el: "\<forall>k < length detections. \<exists>loc analysis.
          ToString host (text_d (detections ! k)) = Inr loc
        \<and> out ! k = ''[Location: '' @ loc @ '']'' @ [newline] @ analysis"
    by simp_all
  have "analyzer_calls (invoked st1) = analyzer_calls (invoked st)"
    by (simp add: st1_def getComponents_invoked analyzer_calls_append)
  moreover have "analyzer_calls (invoked st2) = analyzer_calls (invoked st1)"
    using design_invoked(1) [of host img st1] d by simp
  moreover have "analyzer_calls (invoked st3) = analyzer_calls (invoked st2)"
    using activity_invoked(1) [of host img st2] a by simp
  ultimately have tr4: "analyzer_calls (invoked st4)
        = analyzer_calls (invoked st) @ zip [0 ..< length detections] (map text_d detections)"
    using tr by simp
  show ?thesis
    using len el tr4 by (simp add: processImage_cases final r callSuperPrompt_invoked)
qed



subsection \<open>The synthesis on the sample\<close>

lemma finalPrompt_sample:
  "finalPrompt initial ''a centred card'' sample_analyses ''a login form'' = sample_final_prompt"
  by code_simp

lemma substring_sample:
  "substring0 50 sample_final_prompt = ''Build this app: [Component Analysis]\<newline>    Component''"
  by (simp add: sample_final_prompt_def substring0_def newline_def)


subsection \<open>The pipeline on the example hosts\<close>

lemma design_call_example:
  "design_call (example_host reply) img st = (Inr ''a centred card'', enter (CallVisionAPI
     \<lparr>systemPrompt = MAIN_DESIGN_ANALYSIS_PROMPT,
      userPrompt = ''Analyze the complete design system and structure of this interface.'',
      temperature = 1 / 10, jsonResponse = False, model = ''gpt-4o''\<rparr>) st)"
  by (simp add: design_call_def callVisionAPI_def example_host_def)

lemma activity_call_example:
  "activity_call (example_host reply) img st = (Inr ''a login form'', enter (CallVisionAPI
     \<lparr>systemPrompt = ''Describe this webpage activity in a few sentences.'',
      userPrompt = ''What activity is shown in this image?'',
      temperature = 1 / 10, jsonResponse = False, model = ''gpt-4o''\<rparr>) st)"
  by (simp add: activity_call_def callVisionAPI_def example_host_def)

lemma getDetectionTerm_initial: "getDetectionTerm initial = ''component''"
  by (simp add: getDetectionTerm_def initial_def)

lemma getSplittingMode_initial: "getSplittingMode initial = ''llm''"
  by (simp add: getSplittingMode_def initial_def)

lemma finalPrompt_term:
  "getDetectionTerm st = getDetectionTerm st' \<Longrightarrow> finalPrompt st m cs a = finalPrompt st' m cs a"
  by (simp add: finalPrompt_def buildSuperPrompt_def)

lemma callSuperPrompt_sample:
  assumes "getDetectionTerm st = ''component''"
  shows "fst (callSuperPrompt ''a centred card'' sample_analyses ''a login form'' st) =
     Inr ''This is a mock super prompt response based on: Build this app: [Component Analysis]\<newline>    Component...''"
proof -
  from assms have "getDetectionTerm st = getDetectionTerm initial"
    by (simp add: getDetectionTerm_initial)
  from finalPrompt_term [OF this]
  have "finalPrompt st ''a centred card'' sample_analyses ''a login form'' = sample_final_prompt"
    by (simp add: finalPrompt_sample)
  then show ?thesis
    by (simp add: callSuperPrompt_def substring_sample)
qed

lemma analyzeDetection_settings:
  "getDetectionTerm (snd (analyzeDetection host img i location st)) = getDetectionTerm st"
  by (auto simp: analyzeDetection_cases analysis_call_def callVisionAPI_def Let_def enter_def
      getDetectionTerm_def split: sum.splits prod.splits)

lemma analyzeDetection_example:
  "fst (analyzeDetection (example_host reply) img i (JString s) st)
     = Inr (''[Location: '' @ s @ '']'' @ [newline] @ ''a button'')"
  by (simp add: analyzeDetection_cases analysis_call_example)

lemma processImage_try_sample:
  "fst (processImage_try (example_host sample_reply) () (Some 2) initial) = Inr sample_result"
proof -
  let ?H = "example_host sample_reply"
  define st1 where "st1 = snd (getComponents ?H ''llm'' () 2 initial)"
  have g: "getComponents ?H ''llm'' () 2 initial = (Inr (take 2 sample_detections), st1)"
    using getComponents_sample_cap_2 unfolding st1_def
    by (cases "getComponents ?H ''llm'' () 2 initial") simp
  have t1: "getDetectionTerm st1 = ''component''"
    unfolding st1_def by (simp add: getComponents_settings getDetectionTerm_initial)
  define st2 where "st2 = snd (analyzeMainDesignChoices ?H () st1)"
  have d: "analyzeMainDesignChoices ?H () st1 = (Inr ''a centred card'', st2)"
    unfolding st2_def by (simp add: analyzeMainDesignChoices_cases design_call_example)
  have t2: "getDetectionTerm st2 = ''component''"
    unfolding st2_def by (simp add: design_invoked t1)
  define st3 where "st3 = snd (describeActivity ?H () st2)"
  have a: "describeActivity ?H () st2 = (Inr ''a login form'', st3)"
    unfolding st3_def by (simp add: describeActivity_def activity_call_example)
  have t3: "getDetectionTerm st3 = ''component''"
    unfolding st3_def by (simp add: activity_invoked t2)
  define st4 where "st4 = snd (analyzeDetection ?H () 0 (JString ''Save'') st3)"
  have l1: "analyzeDetection ?H () 0 (JString ''Save'') st3 = (Inr ''[Location: Save]\<newline>a button'', st4)"
    using analyzeDetection_example [of sample_reply "()" 0 "''Save''" st3] unfolding st4_def
    by (cases "analyzeDetection ?H () 0 (JString ''Save'') st3") (simp add: newline_def)
  have t4: "getDetectionTerm st4 = ''component''"
    unfolding st4_def by (simp add: analyzeDetection_settings t3)
  define st5 where "st5 = snd (analyzeDetection ?H () 1 (JString ''top left'') st4)"
  have l2: "analyzeDetection ?H () (Suc 0) (JString ''top left'') st4
      = (Inr ''[Location: top left]\<newline>a button'', st5)"
    using analyzeDetection_example [of sample_reply "()" 1 "''top left''" st4] unfolding st5_def
    by (cases "analyzeDetection ?H () 1 (JString ''top left'') st4") (simp add: newline_def)
  have t5: "getDetectionTerm st5 = ''component''"
    unfolding st5_def by (simp add: analyzeDetection_settings t4)
  have l: "analyzeDetections ?H () 0 (take 2 sample_detections) [] st3 = (Inr sample_analyses, st5)"
    by (simp add: sample_detections_def l1 l2 sample_analyses_def)
  define st6 where "st6 = snd (callSuperPrompt ''a centred card'' sample_analyses ''a login form'' st5)"
  have f: "callSuperPrompt ''a centred card'' sample_analyses ''a login form'' st5 =
     (Inr ''This is a mock super prompt response based on: Build this app: [Component Analysis]\<newline>    Component...'', st6)"
    using callSuperPrompt_sample [OF t5] unfolding st6_def
    by (cases "callSuperPrompt ''a centred card'' sample_analyses ''a login form'' st5") simp
  have ne: "sample_detections \<noteq> []" by (simp add: sample_detections_def)
  show ?thesis
    by (subst processImage_try_cases)
       (simp add: getSplittingMode_initial g ne d a l f sample_result_def)
qed

theorem processImage_analyzes_each_detection_witness:
  "fst (getComponents (example_host sample_reply) (getSplittingMode initial) ()
          (case Some 2 of None \<Rightarrow> MAX_UI_COMPONENTS | Some n \<Rightarrow> n) initial)
     = Inr (take 2 sample_detections)
   \<and> take 2 sample_detections \<noteq> []
   \<and> fst (processImage_try (example_host sample_reply) () (Some 2) initial) = Inr sample_result
   \<and> fst (processImage (example_host sample_reply) () (Some 2) initial) = Inr sample_result
   \<and> length (componentAnalyses sample_result) = 2
   \<and> analyzer_calls (invoked (snd (processImage (example_host sample_reply) () (Some 2) initial)))
       = [(0, JString ''Save''), (1, JString ''top left'')]"
proof -
  have h1: "fst (getComponents (example_host sample_reply) (getSplittingMode initial) ()
          (case Some 2 of None \<Rightarrow> MAX_UI_COMPONENTS | Some n \<Rightarrow> n) initial)
     = Inr (take 2 sample_detections)"
    using getComponents_sample_cap_2 by (simp add: getSplittingMode_initial)
  have h2: "take 2 sample_detections \<noteq> []" by (simp add: sample_detections_def)
  note h3 = processImage_try_sample
  have z: "zip [0 ..< length (take 2 sample_detections)] (map text_d (take 2 sample_detections))
             = [(0, JString ''Save''), (1, JString ''top left'')]"
    by (simp add: sample_detections_def upt_rec)
  have i: "analyzer_calls (invoked initial) = []" by (simp add: initial_def)
  note t = processImage_analyzes_each_detection [OF h1 h2 h3]
  note r = t [THEN conjunct1]
  from t [THEN conjunct2, THEN conjunct1]
  have len: "length (componentAnalyses sample_result) = 2"
    by (simp add: sample_detections_def)
  from t [THEN conjunct2, THEN conjunct2, THEN conjunct1]
  have c: "analyzer_calls (invoked (snd (processImage (example_host sample_reply) () (Some 2) initial)))
       = [(0, JString ''Save''), (1, JString ''top left'')]"
    by (simp only: z i append_Nil)
  from h1 h2 h3 r len c show ?thesis by simp
qed

lemma getComponents_none:
  "fst (getComponents (example_host ''{}'') ''llm'' () 6 initial) = Inr []"
  by (simp add: getComponents_cases detection_call_example parseComponents_def
      example_host_parse example_parse_table js_or_def)

theorem processImage_no_detections_witness:
  "fst (getComponents (example_host ''{}'') (getSplittingMode initial) ()
          (case None of None \<Rightarrow> MAX_UI_COMPONENTS | Some n \<Rightarrow> n) initial) = Inr []
   \<and> fst (processImage (example_host ''{}'') () None initial) =
        Inr \<lparr>mainDesign = ''No components detected.'', componentAnalyses = [],
             finalAnalysis = ''Error during analysis''\<rparr>
   \<and> analyzer_calls (invoked (snd (processImage (example_host ''{}'') () None initial))) = []
   \<and> synthesizer_calls (invoked (snd (processImage (example_host ''{}'') () None initial))) = []"
proof -
  have h: "fst (getComponents (example_host ''{}'') (getSplittingMode initial) ()
          (case None of None \<Rightarrow> MAX_UI_COMPONENTS | Some n \<Rightarrow> n) initial) = Inr []"
    using getComponents_none by (simp add: getSplittingMode_initial MAX_UI_COMPONENTS_def)
  have i: "analyzer_calls (invoked initial) = []" "synthesizer_calls (invoked initial) = []"
    by (simp_all add: initial_def)
  note t = processImage_no_detections [OF h]
  from t [THEN conjunct1]
  have r: "fst (processImage (example_host ''{}'') () None initial) =
        Inr \<lparr>mainDesign = ''No components detected.'', componentAnalyses = [],
             finalAnalysis = ''Error during analysis''\<rparr>"
    by (simp add: getDetectionTerm_initial)
  from t [THEN conjunct2, THEN conjunct2, THEN conjunct1]
  have c: "analyzer_calls (invoked (snd (processImage (example_host ''{}'') () None initial))) = []"
    by (simp add: i)
  from t [THEN conjunct2, THEN conjunct2, THEN conjunct2]
  have s: "synthesizer_calls (invoked (snd (processImage (example_host ''{}'') () None initial))) = []"
    by (simp add: i)
  from h r c s show ?thesis by simp
qed

text \<open>
  C1 as stated fails in its second field: when the model reports no component, the
  \<^verbatim>\<open>componentAnalyses\<close> of the result is the empty list, which carries no text at all.
\<close>

theorem processImage_no_detections_counterexample:
  "fst (getComponents (example_host ''{}'') ''llm'' () 6 initial) = Inr []
   \<and> map_sum id componentAnalyses (fst (processImage (example_host ''{}'') () None initial)) = Inr []"
proof -
  define st1 where "st1 = snd (getComponents (example_host ''{}'') ''llm'' () 6 initial)"
  have g: "getComponents (example_host ''{}'') ''llm'' () 6 initial = (Inr [], st1)"
    using getComponents_none unfolding st1_def
    by (cases "getComponents (example_host ''{}'') ''llm'' () 6 initial") simp
  have "processImage_try (example_host ''{}'') () None initial =
        (Inr \<lparr>mainDesign = ''No '' @ getDetectionTerm st1 @ ''s detected.'',
             componentAnalyses = [],
             finalAnalysis = ''Error during analysis''\<rparr>, st1)"
    by (subst processImage_try_cases)
       (simp add: MAX_UI_COMPONENTS_def getSplittingMode_initial g)
  then have "map_sum id componentAnalyses (fst (processImage (example_host ''{}'') () None initial))
     = Inr []"
    by (simp add: processImage_cases)
  with getComponents_none show ?thesis by simp
qed


subsection \<open>Failures of the gateway\<close>

text \<open>
  C3, as the code has it. When its call of the gateway fails, \<^verbatim>\<open>analyzeMainDesignChoices\<close>
  resolves to the fixed text \<^verbatim>\<open>Error analyzing main design structure\<close>; when its call of the
  gateway fails, \<^verbatim>\<open>describeActivity\<close> rejects with the gateway's error.
\<close>

theorem stage_gateway_failure:
  "(fst (design_call host img (enter AnalyzeMainDesignChoices st)) = Inl e \<longrightarrow>
      fst (analyzeMainDesignChoices host img st) = Inr ''Error analyzing main design structure'')
   \<and> (fst (activity_call host img (enter DescribeActivity st)) = Inl e \<longrightarrow>
      fst (describeActivity host img st) = Inl e)"
  by (auto simp: analyzeMainDesignChoices_cases describeActivity_def split: prod.splits)

lemma offline_calls:
  "fst (design_call offline_host img st) = Inl (Error ''Failed to fetch'')"
  "fst (activity_call offline_host img st) = Inl (Error ''Failed to fetch'')"
  by (simp_all add: design_call_def activity_call_def callVisionAPI_def offline_host_def)

theorem stage_gateway_failure_witness:
  "fst (design_call offline_host () (enter AnalyzeMainDesignChoices initial))
     = Inl (Error ''Failed to fetch'')
   \<and> fst (analyzeMainDesignChoices offline_host () initial)
       = Inr ''Error analyzing main design structure''
   \<and> fst (activity_call offline_host () (enter DescribeActivity initial))
       = Inl (Error ''Failed to fetch'')
   \<and> fst (describeActivity offline_host () initial) = Inl (Error ''Failed to fetch'')"
  using stage_gateway_failure [of offline_host "()" initial "Error ''Failed to fetch''"]
  by (simp add: offline_calls)

text \<open>
  C3 as stated fails for the Activity Describer: without network, \<^verbatim>\<open>describeActivity\<close> returns
  no text; it rejects with the error of the gateway.
\<close>

theorem describeActivity_propagates_counterexample:
  "fst (activity_call offline_host () (enter DescribeActivity initial))
     = Inl (Error ''Failed to fetch'')
   \<and> fst (describeActivity offline_host () initial) = Inl (Error ''Failed to fetch'')
   \<and> isl (fst (describeActivity offline_host () initial))"
  by (simp add: describeActivity_def offline_calls)

text \<open>What becomes of a failure of \<^verbatim>\<open>describeActivity\<close>: the \<^verbatim>\<open>catch\<close> of \<^verbatim>\<open>processImage\<close> takes it.\<close>

lemma processImage_activity_failure:
  assumes "getComponents host (getSplittingMode st) img
             (case md of None \<Rightarrow> MAX_UI_COMPONENTS | Some n \<Rightarrow> n) st = (Inr detections, st1)"
    and "detections \<noteq> []"
    and "analyzeMainDesignChoices host img st1 = (Inr m, st2)"
    and "fst (describeActivity host img st2) = Inl e"
  shows "fst (processImage host img md st) =
           Inr \<lparr>mainDesign = ''Error processing image'', componentAnalyses = [],
                finalAnalysis = ''Error during analysis''\<rparr>"
  using assms
  by (auto simp: processImage_cases processImage_try_cases split: prod.splits sum.splits)

subsection \<open>The synthesis\<close>

text \<open>
  C2, as the code has it. The prompt that \<^verbatim>\<open>callSuperPrompt\<close> builds begins with
  \<^verbatim>\<open>Build this app: \<close>. The text that it returns is the mock reply: the words
  \<^verbatim>\<open>This is a mock super prompt response based on: \<close>, the first 50 characters of that prompt,
  and three dots; so it begins with the mock's words followed by \<^verbatim>\<open>Build this app: \<close>.
\<close>

theorem callSuperPrompt_text:
  "prefix ''Build this app: '' (finalPrompt st m cs a)
   \<and> fst (callSuperPrompt m cs a st) =
       Inr (''This is a mock super prompt response based on: ''
            @ substring0 50 (finalPrompt st m cs a) @ ''...'')
   \<and> prefix ''This is a mock super prompt response based on: Build this app: ''
        (projr (fst (callSuperPrompt m cs a st)))"
proof -
  obtain rest where fp: "finalPrompt st m cs a = ''Build this app: '' @ rest"
    by (simp add: finalPrompt_def)
  have "substring0 50 (finalPrompt st m cs a) = ''Build this app: '' @ take 34 rest"
    unfolding fp substring0_def by simp
  then have "projr (fst (callSuperPrompt m cs a st)) =
      ''This is a mock super prompt response based on: Build this app: '' @ take 34 rest @ ''...''"
    by (simp add: callSuperPrompt_def)
  then have "prefix ''This is a mock super prompt response based on: Build this app: ''
        (projr (fst (callSuperPrompt m cs a st)))"
    by (simp only: prefixI)
  moreover have "prefix ''Build this app: '' (finalPrompt st m cs a)"
    unfolding fp by (rule prefixI) simp
  ultimately show ?thesis by (simp add: callSuperPrompt_def)
qed

text \<open>
  C2 as stated fails: on the sample, the returned text begins with \<^verbatim>\<open>This is a mock\<close>,
  not with \<^verbatim>\<open>Build this app: \<close>.
\<close>

theorem callSuperPrompt_prefix_counterexample:
  "fst (callSuperPrompt ''a centred card'' sample_analyses ''a login form'' initial) =
     Inr ''This is a mock super prompt response based on: Build this app: [Component Analysis]\<newline>    Component...''
   \<and> \<not> prefix ''Build this app: ''
         (projr (fst (callSuperPrompt ''a centred card'' sample_analyses ''a login form'' initial)))"
  by (simp add: callSuperPrompt_sample [OF getDetectionTerm_initial])


subsection \<open>The stored verbosity is never read\<close>

lemma ignores_resolve: "ignores_prompt_choice (resolve x)"
  by (simp add: ignores_prompt_choice_def resolve_def)

lemma ignores_await:
  assumes "ignores_prompt_choice m" and "\<And>x. ignores_prompt_choice (f x)"
  shows "ignores_prompt_choice (await m f)"
  using assms
  by (auto simp: ignores_prompt_choice_def await_def split: prod.splits sum.splits)

lemma ignores_try_catch:
  assumes "ignores_prompt_choice m" and "\<And>e. ignores_prompt_choice (h e)"
  shows "ignores_prompt_choice (try_catch m h)"
  using assms
  by (auto simp: ignores_prompt_choice_def try_catch_def split: prod.splits sum.splits)

lemma ignores_callVisionAPI:
  "ignores_prompt_choice (callVisionAPI host img sys usr temp json mdl)"
  by (simp add: ignores_prompt_choice_def callVisionAPI_def enter_def Let_def)

lemma ignores_enter:
  assumes "ignores_prompt_choice f"
  shows "ignores_prompt_choice (\<lambda>st. f (enter c st))"
proof -
  have "enter c (st\<lparr>PROMPT_CHOICE := x\<rparr>) = (enter c st)\<lparr>PROMPT_CHOICE := x\<rparr>" for st x
    by (simp add: enter_def)
  with assms show ?thesis by (simp add: ignores_prompt_choice_def)
qed

lemma settings_update [simp]:
  "getDetectionTerm (st\<lparr>PROMPT_CHOICE := c\<rparr>) = getDetectionTerm st"
  "getSplittingMode (st\<lparr>PROMPT_CHOICE := c\<rparr>) = getSplittingMode st"
  by (simp_all add: getDetectionTerm_def getSplittingMode_def)

lemma buildSuperPrompt_update:
  "buildSuperPrompt (st\<lparr>PROMPT_CHOICE := c\<rparr>) m cs a p = buildSuperPrompt st m cs a p"
  by (simp add: buildSuperPrompt_def)

lemma finalPrompt_update:
  "finalPrompt (st\<lparr>PROMPT_CHOICE := c\<rparr>) m cs a = finalPrompt st m cs a"
  by (simp add: finalPrompt_def buildSuperPrompt_update)

lemma ignores_getComponents: "ignores_prompt_choice (getComponents host method img cap)"
proof -
  have dc: "ignores_prompt_choice (detection_call host img t cap)" for t
    unfolding detection_call_def by (rule ignores_callVisionAPI)
  have pc: "ignores_prompt_choice (\<lambda>st'. (parseComponents host t cap response, st'))"
    for t response
    by (simp add: ignores_prompt_choice_def)
  have "ignores_prompt_choice (\<lambda>st. try_catch
           (await (detection_call host img t cap)
              (\<lambda>response st'. (parseComponents host t cap response, st')))
           (\<lambda>e. resolve [])
           (enter (GetComponents cap) st))" for t
    by (intro ignores_enter ignores_try_catch ignores_await ignores_resolve dc pc)
  then show ?thesis
    by (simp add: ignores_prompt_choice_def getComponents_def Let_def)
qed

lemma ignores_analyzeMainDesignChoices:
  "ignores_prompt_choice (analyzeMainDesignChoices host img)"
proof -
  have "ignores_prompt_choice (\<lambda>st. try_catch (design_call host img)
       (\<lambda>e. resolve ''Error analyzing main design structure'')
       (enter AnalyzeMainDesignChoices st))"
    by (intro ignores_enter ignores_try_catch ignores_resolve)
       (simp add: design_call_def ignores_callVisionAPI)
  then show ?thesis
    by (simp add: ignores_prompt_choice_def analyzeMainDesignChoices_def)
qed

lemma ignores_describeActivity: "ignores_prompt_choice (describeActivity host img)"
proof -
  have "ignores_prompt_choice (\<lambda>st. activity_call host img (enter DescribeActivity st))"
    by (intro ignores_enter) (simp add: activity_call_def ignores_callVisionAPI)
  then show ?thesis
    by (simp add: ignores_prompt_choice_def describeActivity_def)
qed

lemma ignores_analyzeDetection:
  "ignores_prompt_choice (analyzeDetection host img index location)"
  by (auto simp: ignores_prompt_choice_def analyzeDetection_cases analysis_call_def
      callVisionAPI_def enter_def Let_def split: sum.splits)

lemma ignores_analyzeDetections:
  "ignores_prompt_choice (analyzeDetections host img i ds acc)"
proof (induction ds arbitrary: i acc)
  case Nil
  then show ?case by (simp add: ignores_prompt_choice_def)
next
  case (Cons d ds)
  have one: "analyzeDetection host img i (text_d d) (st\<lparr>PROMPT_CHOICE := c\<rparr>) =
      (fst (analyzeDetection host img i (text_d d) st),
       (snd (analyzeDetection host img i (text_d d) st))\<lparr>PROMPT_CHOICE := c\<rparr>)" for st c
    using ignores_analyzeDetection [of host img i "text_d d"]
    by (simp add: ignores_prompt_choice_def)
  have rest: "analyzeDetections host img j ds acc' (st\<lparr>PROMPT_CHOICE := c\<rparr>) =
      (fst (analyzeDetections host img j ds acc' st),
       (snd (analyzeDetections host img j ds acc' st))\<lparr>PROMPT_CHOICE := c\<rparr>)" for st c j acc'
    using Cons.IH [of j acc'] by (simp add: ignores_prompt_choice_def)
  show ?case
    unfolding ignores_prompt_choice_def
    by (auto simp: one rest split: prod.splits sum.splits)
qed

lemma ignores_callSuperPrompt: "ignores_prompt_choice (callSuperPrompt m cs a)"
  by (simp add: ignores_prompt_choice_def callSuperPrompt_def finalPrompt_update enter_def)

lemma ignores_processImage_try: "ignores_prompt_choice (processImage_try host img md)"
proof -
  have "ignores_prompt_choice
     (await (getComponents host mode img limit)
           (\<lambda>detections st1.
              if detections = []
              then (Inr \<lparr>mainDesign = ''No '' @ getDetectionTerm st1 @ ''s detected.'',
                         componentAnalyses = [],
                         finalAnalysis = ''Error during analysis''\<rparr>, st1)
              else
                await (analyzeMainDesignChoices host img) (\<lambda>mainDesignChoices.
                await (describeActivity host img) (\<lambda>activityDescription.
                await (analyzeDetections host img 0 detections []) (\<lambda>detectionAnalyses.
                await (callSuperPrompt mainDesignChoices detectionAnalyses activityDescription)
                  (\<lambda>final.
                     resolve \<lparr>mainDesign = mainDesignChoices,
                              componentAnalyses = detectionAnalyses,
                              finalAnalysis = final\<rparr>)))) st1))" for mode limit
  proof (rule ignores_await [OF ignores_getComponents])
    fix detections :: "UIDetection list"
    have short: "ignores_prompt_choice (\<lambda>st1.
        (Inr \<lparr>mainDesign = ''No '' @ getDetectionTerm st1 @ ''s detected.'',
               componentAnalyses = [], finalAnalysis = ''Error during analysis''\<rparr>, st1))"
      by (simp add: ignores_prompt_choice_def)
    have long: "ignores_prompt_choice
       (await (analyzeMainDesignChoices host img) (\<lambda>mainDesignChoices.
        await (describeActivity host img) (\<lambda>activityDescription.
        await (analyzeDetections host img 0 detections []) (\<lambda>detectionAnalyses.
        await (callSuperPrompt mainDesignChoices detectionAnalyses activityDescription)
          (\<lambda>final.
             resolve \<lparr>mainDesign = mainDesignChoices,
                      componentAnalyses = detectionAnalyses,
                      finalAnalysis = final\<rparr>)))))"
      by (intro ignores_await ignores_analyzeMainDesignChoices ignores_describeActivity
          ignores_analyzeDetections ignores_callSuperPrompt ignores_resolve)
    show "ignores_prompt_choice (\<lambda>st1.
              if detections = []
              then (Inr \<lparr>mainDesign = ''No '' @ getDetectionTerm st1 @ ''s detected.'',
                         componentAnalyses = [],
                         finalAnalysis = ''Error during analysis''\<rparr>, st1)
              else
                await (analyzeMainDesignChoices host img) (\<lambda>mainDesignChoices.
                await (describeActivity host img) (\<lambda>activityDescription.
                await (analyzeDetections host img 0 detections []) (\<lambda>detectionAnalyses.
                await (callSuperPrompt mainDesignChoices detectionAnalyses activityDescription)
                  (\<lambda>final.
                     resolve \<lparr>mainDesign = mainDesignChoices,
                              componentAnalyses = detectionAnalyses,
                              finalAnalysis = final\<rparr>)))) st1)"
      using short long by (cases "detections = []") (simp_all add: ignores_prompt_choice_def)
  qed
  then show ?thesis
    by (simp add: ignores_prompt_choice_def processImage_try_def Let_def)
qed

lemma ignores_processImage: "ignores_prompt_choice (processImage host img md)"
  unfolding processImage_def
  by (intro ignores_try_catch ignores_processImage_try ignores_resolve)

lemma hd_join: "x \<noteq> [] \<Longrightarrow> hd (join sep (x # xs)) = hd x"
  by (cases xs) simp_all

lemma hd_concise: "hd (concise_template t r l a) = CHR ''T''"
  unfolding concise_template_def by (subst hd_join) simp_all

lemma hd_extensive: "hd (extensive_template r l a) = CHR ''Y''"
  unfolding extensive_template_def by (subst hd_join) simp_all

lemma templates_differ: "extensive_template r l a \<noteq> concise_template t r' l' a'"
proof
  assume "extensive_template r l a = concise_template t r' l' a'"
  then have "hd (extensive_template r l a) = hd (concise_template t r' l' a')" by simp
  then show False by (simp add: hd_concise hd_extensive)
qed

lemma setPromptChoice_state:
  "snd (setPromptChoice choice st) = st
   \<or> snd (setPromptChoice choice st) = st\<lparr>PROMPT_CHOICE := choice\<rparr>"
  by (simp add: setPromptChoice_def)

text \<open>
  C10. \<^verbatim>\<open>callSuperPrompt\<close> calls \<^verbatim>\<open>buildSuperPrompt\<close> without a \<^verbatim>\<open>promptSize\<close>, which is the call
  with \<^verbatim>\<open>'concise'\<close>: the final prompt is the cleaned concise template, and the extensive
  template would give another text. Whatever \<^verbatim>\<open>setPromptChoice\<close> was called with before, and
  whether it threw or stored the value, \<^verbatim>\<open>callSuperPrompt\<close> and the whole of \<^verbatim>\<open>processImage\<close>
  return what they return without that call.
\<close>

theorem verbosity_never_read:
  "buildSuperPrompt st m cs a JUndefined = buildSuperPrompt st m cs a (JString ''concise'')
   \<and> finalPrompt st m cs a
       = ''Build this app: '' @ cleanedPrompt (buildSuperPrompt st m cs a (JString ''concise''))
   \<and> buildSuperPrompt st m cs a (JString ''extensive'')
       \<noteq> buildSuperPrompt st m cs a (JString ''concise'')
   \<and> fst (callSuperPrompt m cs a (snd (setPromptChoice choice st)))
       = fst (callSuperPrompt m cs a st)
   \<and> fst (processImage host img md (snd (setPromptChoice choice st)))
       = fst (processImage host img md st)"
proof -
  have b: "buildSuperPrompt st m cs a JUndefined = buildSuperPrompt st m cs a (JString ''concise'')"
    by (simp add: buildSuperPrompt_def)
  have f: "finalPrompt st m cs a
       = ''Build this app: '' @ cleanedPrompt (buildSuperPrompt st m cs a (JString ''concise''))"
    by (simp add: finalPrompt_def b)
  have d: "buildSuperPrompt st m cs a (JString ''extensive'')
       \<noteq> buildSuperPrompt st m cs a (JString ''concise'')"
    by (simp add: buildSuperPrompt_def Let_def templates_differ)
  have c: "fst (callSuperPrompt m cs a (snd (setPromptChoice choice st)))
       = fst (callSuperPrompt m cs a st)"
    using setPromptChoice_state [of choice st] ignores_callSuperPrompt [of m cs a]
    by (auto simp: ignores_prompt_choice_def)
  have p: "fst (processImage host img md (snd (setPromptChoice choice st)))
       = fst (processImage host img md st)"
    using setPromptChoice_state [of choice st] ignores_processImage [of host img md]
    by (auto simp: ignores_prompt_choice_def)
  from b f d c p show ?thesis by simp
qed


end
